theory Spec2Isabelle
  imports Complex_Main "HOL-Library.AList"
begin

section \<open>JavaScript values\<close>

text \<open>
  The synchronisation core works on parsed JSON: wire envelopes, features and coordinate
  trees are plain JavaScript values. A number is a finite value, \<open>NaN\<close> or one of the two
  infinities; finite numbers are idealised as reals (rounding is not modelled). An object
  is its list of own properties in enumeration order, read by its first entry for a key.
\<close>

datatype num = Fin real | NaN | PosInf | NegInf

datatype jsval = JUndef | JNull | JBool bool | JNum num | JStr string
  | JArr "jsval list" | JObj "(string \<times> jsval) list"

datatype error = TypeError

type_synonym props = "(string \<times> jsval) list"

definition bindE :: "error + 'a \<Rightarrow> ('a \<Rightarrow> error + 'b) \<Rightarrow> error + 'b" where
  "bindE m f = (case m of Inl e \<Rightarrow> Inl e | Inr x \<Rightarrow> f x)"

fun isNaN :: "num \<Rightarrow> bool" where
  "isNaN NaN = True"
| "isNaN _ = False"

fun isFinite :: "num \<Rightarrow> bool" where
  "isFinite (Fin x) = True"
| "isFinite _ = False"

fun isArray :: "jsval \<Rightarrow> bool" where
  "isArray (JArr xs) = True"
| "isArray _ = False"

text \<open>\<open>typeof v === 'number' || typeof v === 'string'\<close>\<close>

fun isNumOrStr :: "jsval \<Rightarrow> bool" where
  "isNumOrStr (JNum n) = True"
| "isNumOrStr (JStr s) = True"
| "isNumOrStr _ = False"

fun isString :: "jsval \<Rightarrow> bool" where
  "isString (JStr s) = True"
| "isString _ = False"

text \<open>Truthiness: \<open>undefined\<close>, \<open>null\<close>, \<open>false\<close>, \<open>0\<close>, \<open>NaN\<close> and \<open>""\<close> are falsy.\<close>

fun truthy :: "jsval \<Rightarrow> bool" where
  "truthy JUndef = False"
| "truthy JNull = False"
| "truthy (JBool b) = b"
| "truthy (JNum n) = (n \<noteq> Fin 0 \<and> n \<noteq> NaN)"
| "truthy (JStr s) = (s \<noteq> [])"
| "truthy (JArr xs) = True"
| "truthy (JObj kvs) = True"

text \<open>\<open>a || b\<close>\<close>

definition orElse :: "jsval \<Rightarrow> jsval \<Rightarrow> jsval" where
  "orElse a b = (if truthy a then a else b)"

text \<open>Reading a property of a property list; an absent property reads \<open>undefined\<close>.\<close>

definition propOf :: "props \<Rightarrow> string \<Rightarrow> jsval" where
  "propOf kvs k = (case map_of kvs k of None \<Rightarrow> JUndef | Some v \<Rightarrow> v)"

text \<open>
  \<open>v.k\<close> for a named property \<open>k\<close>: reading from \<open>undefined\<close> or \<open>null\<close> throws; arrays and
  strings have \<open>length\<close>; a parsed JSON array, string, number or boolean has no other
  named property.
\<close>

fun getProp :: "string \<Rightarrow> jsval \<Rightarrow> error + jsval" where
  "getProp k JUndef = Inl TypeError"
| "getProp k JNull = Inl TypeError"
| "getProp k (JObj kvs) = Inr (propOf kvs k)"
| "getProp k (JArr xs) = Inr (if k = ''length'' then JNum (Fin (real (length xs))) else JUndef)"
| "getProp k (JStr s) = Inr (if k = ''length'' then JNum (Fin (real (length s))) else JUndef)"
| "getProp k _ = Inr JUndef"

text \<open>Decimal digits of an index, the property key of an array position.\<close>

fun dec :: "nat \<Rightarrow> string" where
  "dec n = (if n < 10 then [char_of (48 + n)] else dec (n div 10) @ [char_of (48 + n mod 10)])"

text \<open>\<open>v[i]\<close>: out of range reads \<open>undefined\<close>; a string yields its character.\<close>

fun elemAt :: "nat \<Rightarrow> jsval \<Rightarrow> error + jsval" where
  "elemAt i JUndef = Inl TypeError"
| "elemAt i JNull = Inl TypeError"
| "elemAt i (JArr xs) = Inr (if i < length xs then xs ! i else JUndef)"
| "elemAt i (JStr s) = Inr (if i < length s then JStr [s ! i] else JUndef)"
| "elemAt i (JObj kvs) = Inr (propOf kvs (dec i))"
| "elemAt i _ = Inr JUndef"

text \<open>Reading a property or an index of \<open>v\<close> does not throw: \<open>v\<close> is neither \<open>null\<close> nor \<open>undefined\<close>.\<close>

fun readable :: "jsval \<Rightarrow> bool" where
  "readable JUndef = False"
| "readable JNull = False"
| "readable v = True"

text \<open>
  \<open>a === b\<close>. Arrays and objects are equal only as the same reference; \<open>sameRef\<close> tells
  whether the two operands were read from one and the same object. \<open>NaN\<close> equals nothing.
\<close>

fun strictEq :: "bool \<Rightarrow> jsval \<Rightarrow> jsval \<Rightarrow> bool" where
  "strictEq sameRef (JArr xs) b = (sameRef \<and> b = JArr xs)"
| "strictEq sameRef (JObj kvs) b = (sameRef \<and> b = JObj kvs)"
| "strictEq sameRef (JNum n) b = (n \<noteq> NaN \<and> b = JNum n)"
| "strictEq sameRef a b = (a = b)"

text \<open>\<open>[...v]\<close>: arrays and strings are iterable, nothing else in a parsed value is.\<close>

fun spread :: "jsval \<Rightarrow> error + jsval list" where
  "spread (JArr xs) = Inr xs"
| "spread (JStr s) = Inr (map (\<lambda>c. JStr [c]) s)"
| "spread _ = Inl TypeError"

text \<open>
  The own enumerable properties that an object spread \<open>{...v}\<close> copies: those of an
  object; the indexed elements of an array or of a string; none of any other value.
\<close>

fun ownProps :: "jsval \<Rightarrow> props" where
  "ownProps (JObj kvs) = kvs"
| "ownProps (JArr xs) = zip (map dec [0..<length xs]) xs"
| "ownProps (JStr s) = zip (map dec [0..<length s]) (map (\<lambda>c. JStr [c]) s)"
| "ownProps v = []"

subsection \<open>The JSON round trip\<close>

text \<open>
  \<open>JSON.parse(JSON.stringify(v))\<close>: a non-finite number becomes \<open>null\<close>, and so does
  \<open>undefined\<close> inside an array; a property whose value is \<open>undefined\<close> is omitted. An
  object is copied by its own properties, each key once. (\<open>undefined\<close> itself has no JSON
  text; it is left as it is and never passed at the top level.)
\<close>

definition jsonProps :: "props \<Rightarrow> props" where
  "jsonProps kvs = filter (\<lambda>kv. snd kv \<noteq> JUndef) (AList.clearjunk kvs)"

fun jsonCopy :: "jsval \<Rightarrow> jsval" where
  "jsonCopy (JNum n) = (if isFinite n then JNum n else JNull)"
| "jsonCopy (JArr xs) = JArr (map (\<lambda>x. if x = JUndef then JNull else jsonCopy x) xs)"
| "jsonCopy (JObj kvs) = JObj (jsonProps (map (\<lambda>kv. (fst kv, jsonCopy (snd kv))) kvs))"
| "jsonCopy v = v"

definition jsonCopyObj :: "props \<Rightarrow> props" where
  "jsonCopyObj kvs = jsonProps (map (\<lambda>kv. (fst kv, jsonCopy (snd kv))) kvs)"

section \<open>GeometryValidator (DrawControl.jsx)\<close>

text \<open>
  \<open>parseFloat\<close> is the host's. On a number it returns the number (the string form of a
  number parses back to it); what it makes of any other value is the parameter \<open>pf\<close>
  of the model, and every theorem below holds for every \<open>pf\<close>.
\<close>

definition parseFloat :: "(jsval \<Rightarrow> num) \<Rightarrow> jsval \<Rightarrow> num" where
  "parseFloat pf v = (case v of JNum n \<Rightarrow> n | _ \<Rightarrow> pf v)"

definition origin :: jsval where
  "origin = JArr [JNum (Fin 0), JNum (Fin 0)]"

fun cleanCoordinatePair :: "(jsval \<Rightarrow> num) \<Rightarrow> jsval \<Rightarrow> jsval" where
  "cleanCoordinatePair pf (JArr [c0, c1]) =
     (let lon = parseFloat pf c0; lat = parseFloat pf c1 in
      if isNaN lon \<or> isNaN lat \<or> \<not> isFinite lon \<or> \<not> isFinite lat then origin
      else JArr [JNum lon, JNum lat])"
| "cleanCoordinatePair pf coordPair = origin"

fun cleanCoordinatesRecursive :: "(jsval \<Rightarrow> num) \<Rightarrow> jsval \<Rightarrow> jsval" where
  "cleanCoordinatesRecursive pf (JArr cs) =
     (if length cs = 2 \<and> isNumOrStr (cs ! 0) \<and> isNumOrStr (cs ! 1)
      then cleanCoordinatePair pf (JArr cs)
      else JArr (map (cleanCoordinatesRecursive pf) cs))"
| "cleanCoordinatesRecursive pf coordinates = coordinates"

text \<open>
  The closure test \<open>firstPoint[0] !== lastPoint[0] || firstPoint[1] !== lastPoint[1]\<close>.
  In a ring of one point the first and the last point are the same object.
\<close>

definition pointsDiffer :: "bool \<Rightarrow> jsval \<Rightarrow> jsval \<Rightarrow> error + bool" where
  "pointsDiffer sameRef firstPoint lastPoint =
     bindE (elemAt 0 firstPoint) (\<lambda>f0.
     bindE (elemAt 0 lastPoint) (\<lambda>l0.
       if \<not> strictEq sameRef f0 l0 then Inr True
       else bindE (elemAt 1 firstPoint) (\<lambda>f1.
            bindE (elemAt 1 lastPoint) (\<lambda>l1. Inr (\<not> strictEq sameRef f1 l1)))))"

text \<open>One turn of the loop over \<open>rings\<close>: the ring that position \<open>i\<close> holds afterwards.\<close>

fun closeRing :: "jsval \<Rightarrow> error + jsval" where
  "closeRing (JArr (p # ps)) =
     (let firstPoint = p; lastPoint = last (p # ps) in
      bindE (pointsDiffer (ps = []) firstPoint lastPoint) (\<lambda>d.
        if d then bindE (spread firstPoint) (\<lambda>c. Inr (JArr ((p # ps) @ [JArr c])))
        else Inr (JArr (p # ps))))"
| "closeRing ring = Inr (JArr [])"

fun closeRings :: "jsval list \<Rightarrow> error + jsval list" where
  "closeRings [] = Inr []"
| "closeRings (ring # rings) =
     bindE (closeRing ring) (\<lambda>r. bindE (closeRings rings) (\<lambda>rs. Inr (r # rs)))"

text \<open>The elements of an array (\<open>rings\<close> is the cleaned array, so always one).\<close>

fun arrayItems :: "jsval \<Rightarrow> jsval list" where
  "arrayItems (JArr xs) = xs"
| "arrayItems _ = []"

definition emptyGeometry :: jsval where
  "emptyGeometry = JObj [(''type'', JNull), (''coordinates'', JArr [])]"

text \<open>
  The argument \<open>geoJsonFeature\<close> is a feature object, given by its properties. The result
  is the deep copy \<open>newFeature\<close> after the in-place repairs, or the exception thrown.
\<close>

definition ensurePolygonClosedAndClean :: "(jsval \<Rightarrow> num) \<Rightarrow> props \<Rightarrow> error + props" where
  "ensurePolygonClosedAndClean pf geoJsonFeature =
     (let copied = jsonCopyObj geoJsonFeature;
          withProps = (if \<not> truthy (propOf copied ''properties'')
                       then AList.update ''properties'' (JObj []) copied else copied);
          newFeature = (if \<not> truthy (propOf withProps ''geometry'')
                        then AList.update ''geometry'' emptyGeometry withProps else withProps)
      in case propOf newFeature ''geometry'' of
           JObj g \<Rightarrow>
             (if isArray (propOf g ''coordinates'') then
                (let cleaned = cleanCoordinatesRecursive pf (propOf g ''coordinates'') in
                 if propOf g ''type'' = JStr ''Polygon'' then
                   bindE (closeRings (arrayItems cleaned)) (\<lambda>closed.
                     Inr (AList.update ''geometry''
                            (JObj (AList.update ''coordinates'' (JArr closed) g)) newFeature))
                 else Inr (AList.update ''geometry''
                             (JObj (AList.update ''coordinates'' cleaned g)) newFeature))
              else Inr newFeature)
         | _ \<Rightarrow> Inr newFeature)"

subsection \<open>Shapes of coordinate data, for the statements below\<close>

text \<open>
  A host whose \<open>parseFloat\<close> and \<open>ToNumber\<close> find no number in anything but a number; it
  serves to run the model on concrete inputs, where only numbers are converted.
\<close>

definition hostNaN :: "jsval \<Rightarrow> num" where
  "hostNaN v = NaN"

fun isFiniteNum :: "jsval \<Rightarrow> bool" where
  "isFiniteNum (JNum (Fin x)) = True"
| "isFiniteNum _ = False"

text \<open>
  Every array of two numbers or strings, at any depth, is a pair of finite numbers.
\<close>

fun leafPairsFinite :: "jsval \<Rightarrow> bool" where
  "leafPairsFinite (JArr cs) =
     (if length cs = 2 \<and> isNumOrStr (cs ! 0) \<and> isNumOrStr (cs ! 1)
      then isFiniteNum (cs ! 0) \<and> isFiniteNum (cs ! 1)
      else list_all leafPairsFinite cs)"
| "leafPairsFinite v = True"







text \<open>
  The closing of one ring in the words of the statement below. \<open>item i p\<close> is \<open>p[i]\<close> of
  a point that can be read. Two points agree when they are strictly equal at index 0 and
  at index 1. A ring that is no array or is empty becomes the empty ring; any other ring is
  kept, and a copy of its first point is appended exactly when the first and the last point
  do not agree.
\<close>

definition item :: "nat \<Rightarrow> jsval \<Rightarrow> jsval" where
  "item i p = (case elemAt i p of Inr x \<Rightarrow> x | Inl e \<Rightarrow> JUndef)"






text \<open>
  Sample features: an open square, a ring whose first and last point differ at index 2 only,
  a Polygon whose only ring holds \<open>null\<close>, and a line through a position of three numbers
  and a pair holding \<open>null\<close>.
\<close>

definition openSquareRing :: "jsval list" where
  "openSquareRing = [JArr [JNum (Fin 0), JNum (Fin 0)], JArr [JNum (Fin 4), JNum (Fin 0)],
                     JArr [JNum (Fin 4), JNum (Fin 4)], JArr [JNum (Fin 0), JNum (Fin 4)]]"

definition openSquareGeometry :: props where
  "openSquareGeometry = [(''type'', JStr ''Polygon''), (''coordinates'', JArr [JArr openSquareRing])]"

definition openSquare :: props where
  "openSquare = [(''id'', JNum (Fin 1)), (''geometry'', JObj openSquareGeometry)]"



definition nullPointPolygon :: props where
  "nullPointPolygon =
     [(''id'', JNum (Fin 2)),
      (''geometry'', JObj [(''type'', JStr ''Polygon''), (''coordinates'', JArr [JArr [JNull]])]),
      (''properties'', JObj [])]"

definition malformedLine :: props where
  "malformedLine =
     [(''id'', JNum (Fin 5)),
      (''geometry'', JObj [(''type'', JStr ''LineString''),
         (''coordinates'', JArr [JArr [JNum (Fin 1), JNum (Fin 2), JNum (Fin 3)], JArr [JNum (Fin 4), JNull]])]),
      (''properties'', JObj [])]"

section \<open>FeatureStore and inbound envelopes (App.jsx, MapLoader.jsx)\<close>

text \<open>
  The store is the React state \<open>shapes\<close>, an array of features. An inbound envelope is
  whatever \<open>JSON.parse\<close> made of the message body. \<open>setShapes\<close> with an updater is the
  updater applied to the current store.

  The host's \<open>ToNumber\<close> is fixed on numbers, \<open>undefined\<close>, \<open>null\<close> and booleans; what it
  makes of a string, an array or an object is the parameter \<open>tn\<close>.
\<close>

type_synonym store = "jsval list"

definition toNumber :: "(jsval \<Rightarrow> num) \<Rightarrow> jsval \<Rightarrow> num" where
  "toNumber tn v =
     (case v of JNum n \<Rightarrow> n | JUndef \<Rightarrow> NaN | JNull \<Rightarrow> Fin 0
              | JBool b \<Rightarrow> Fin (if b then 1 else 0) | _ \<Rightarrow> tn v)"

text \<open>The global \<open>isNaN(v)\<close> converts its argument; \<open>Number.isFinite(v)\<close> does not.\<close>

definition globalIsNaN :: "(jsval \<Rightarrow> num) \<Rightarrow> jsval \<Rightarrow> bool" where
  "globalIsNaN tn v = isNaN (toNumber tn v)"

fun numberIsFinite :: "jsval \<Rightarrow> bool" where
  "numberIsFinite (JNum n) = isFinite n"
| "numberIsFinite _ = False"

subsection \<open>MapLoader.processBulkAddPacket\<close>

text \<open>\<open>packet && packet.type === 'bulkAdd' && Array.isArray(packet.data)\<close>\<close>

definition processBulkAddPacket :: "jsval \<Rightarrow> store \<Rightarrow> store" where
  "processBulkAddPacket packet shapes =
     (if truthy packet \<and> getProp ''type'' packet = Inr (JStr ''bulkAdd'')
      then (case getProp ''data'' packet of Inr (JArr features) \<Rightarrow> features | _ \<Rightarrow> shapes)
      else shapes)"

subsection \<open>App.handleIncomingMessage\<close>

text \<open>\<open>geoJsonData && geoJsonData.geometry && typeof geoJsonData.geometry.type === 'string'\<close>\<close>

definition hasTypedGeometry :: "jsval \<Rightarrow> bool" where
  "hasTypedGeometry geoJsonData =
     (truthy geoJsonData \<and>
      (case getProp ''geometry'' geoJsonData of
         Inr geometry \<Rightarrow> truthy geometry \<and>
           (case getProp ''type'' geometry of Inr t \<Rightarrow> isString t | Inl e \<Rightarrow> False)
       | Inl e \<Rightarrow> False))"

text \<open>
  The test on one \<open>coordPair\<close> of the Polygon check:
  \<open>coordPair.length !== 2 || isNaN(coordPair[0]) || isNaN(coordPair[1]) ||
   !Number.isFinite(coordPair[0]) || !Number.isFinite(coordPair[1])\<close>.
\<close>

definition pairInvalid :: "(jsval \<Rightarrow> num) \<Rightarrow> jsval \<Rightarrow> error + bool" where
  "pairInvalid tn coordPair =
     bindE (getProp ''length'' coordPair) (\<lambda>len.
       if \<not> strictEq False len (JNum (Fin 2)) then Inr True
       else bindE (elemAt 0 coordPair) (\<lambda>c0.
            bindE (elemAt 1 coordPair) (\<lambda>c1.
              Inr (globalIsNaN tn c0 \<or> globalIsNaN tn c1
                   \<or> \<not> numberIsFinite c0 \<or> \<not> numberIsFinite c1))))"

text \<open>
  The two nested \<open>for ... of\<close> loops. \<open>Inr False\<close> is the early \<open>return\<close> at the first bad
  pair; a ring or a ring list that is not iterable throws when the loop reaches it.
\<close>

fun pairsValid :: "(jsval \<Rightarrow> num) \<Rightarrow> jsval list \<Rightarrow> error + bool" where
  "pairsValid tn [] = Inr True"
| "pairsValid tn (coordPair # rest) =
     bindE (pairInvalid tn coordPair) (\<lambda>bad. if bad then Inr False else pairsValid tn rest)"

fun ringsValid :: "(jsval \<Rightarrow> num) \<Rightarrow> jsval list \<Rightarrow> error + bool" where
  "ringsValid tn [] = Inr True"
| "ringsValid tn (ring # rest) =
     bindE (spread ring) (\<lambda>pairs.
     bindE (pairsValid tn pairs) (\<lambda>ok. if ok then ringsValid tn rest else Inr False))"

definition polygonCoordinatesValid :: "(jsval \<Rightarrow> num) \<Rightarrow> jsval \<Rightarrow> error + bool" where
  "polygonCoordinatesValid tn geometry =
     bindE (getProp ''coordinates'' geometry) (\<lambda>rings.
     bindE (spread rings) (\<lambda>rs. ringsValid tn rs))"

text \<open>\<open>message.id || geoJsonData.id\<close>\<close>

definition targetId :: "jsval \<Rightarrow> jsval \<Rightarrow> error + jsval" where
  "targetId message geoJsonData =
     bindE (getProp ''id'' message) (\<lambda>mid.
       if truthy mid then Inr mid else getProp ''id'' geoJsonData)"

text \<open>
  \<open>prev.findIndex(s => s.id === target)\<close>; \<open>None\<close> is \<open>-1\<close>. A stored feature and the
  envelope never share an object, so an id that is an array or an object matches nothing.
\<close>

fun findIndexById :: "jsval \<Rightarrow> store \<Rightarrow> error + nat option" where
  "findIndexById target [] = Inr None"
| "findIndexById target (s # rest) =
     bindE (getProp ''id'' s) (\<lambda>sid.
       if strictEq False sid target then Inr (Some 0)
       else bindE (findIndexById target rest) (\<lambda>r. Inr (map_option Suc r)))"

text \<open>\<open>{ ...geoJsonData, id: target }\<close>\<close>

definition withId :: "jsval \<Rightarrow> jsval \<Rightarrow> jsval" where
  "withId target geoJsonData = JObj (AList.update ''id'' target (ownProps geoJsonData))"

text \<open>The updater passed to \<open>setShapes\<close> for \<open>add\<close> and \<open>modify\<close>.\<close>

definition updateShapes :: "jsval \<Rightarrow> jsval \<Rightarrow> jsval \<Rightarrow> store \<Rightarrow> error + store" where
  "updateShapes message geoJsonData mtype prev =
     bindE (targetId message geoJsonData) (\<lambda>target.
     bindE (findIndexById target prev) (\<lambda>existingIndex.
       if mtype = JStr ''add'' then
         (case existingIndex of None \<Rightarrow> Inr (prev @ [geoJsonData]) | Some i \<Rightarrow> Inr prev)
       else
         (case existingIndex of
            Some i \<Rightarrow> Inr (prev[i := withId target geoJsonData])
          | None \<Rightarrow> Inr (prev @ [geoJsonData]))))"

text \<open>\<open>prev.filter(shape => shape.id !== message.id)\<close>\<close>

fun removeById :: "jsval \<Rightarrow> store \<Rightarrow> error + store" where
  "removeById mid [] = Inr []"
| "removeById mid (shape # rest) =
     bindE (getProp ''id'' shape) (\<lambda>sid.
     bindE (removeById mid rest) (\<lambda>kept.
       Inr (if \<not> strictEq False sid mid then shape # kept else kept)))"

text \<open>
  The handler: the store after the envelope, or the exception that escaped (the store is
  then as it was).
\<close>

definition handleIncomingMessage :: "(jsval \<Rightarrow> num) \<Rightarrow> jsval \<Rightarrow> store \<Rightarrow> error + store" where
  "handleIncomingMessage tn message shapes =
     bindE (getProp ''type'' message) (\<lambda>mtype.
       if mtype = JStr ''add'' \<or> mtype = JStr ''modify'' then
         bindE (getProp ''data'' message) (\<lambda>d.
         bindE (getProp ''updates'' message) (\<lambda>u.
           (let geoJsonData = orElse d u in
            if hasTypedGeometry geoJsonData then
              bindE (getProp ''geometry'' geoJsonData) (\<lambda>geometry.
              bindE (getProp ''type'' geometry) (\<lambda>gtype.
              bindE (if gtype = JStr ''Polygon'' then polygonCoordinatesValid tn geometry
                     else Inr True) (\<lambda>ok.
                if ok then updateShapes message geoJsonData mtype shapes else Inr shapes)))
            else Inr shapes)))
       else if mtype = JStr ''remove'' then
         bindE (getProp ''id'' message) (\<lambda>mid. removeById mid shapes)
       else if mtype = JStr ''bulkAdd'' then Inr (processBulkAddPacket message shapes)
       else Inr shapes)"

text \<open>
  WebSocketService calls the handler inside \<open>try\<close>/\<open>catch\<close>: an exception is logged and the
  message dropped.
\<close>

definition storeAfter :: "(jsval \<Rightarrow> num) \<Rightarrow> jsval \<Rightarrow> store \<Rightarrow> store" where
  "storeAfter tn message shapes =
     (case handleIncomingMessage tn message shapes of Inl e \<Rightarrow> shapes | Inr shapes' \<Rightarrow> shapes')"

subsection \<open>Store and envelope shapes, for the statements below\<close>

text \<open>The stored feature \<open>s\<close> is the one the envelope addresses: \<open>s.id === target\<close>.\<close>

definition idMatches :: "jsval \<Rightarrow> jsval \<Rightarrow> bool" where
  "idMatches target s = (case getProp ''id'' s of Inr sid \<Rightarrow> strictEq False sid target | Inl e \<Rightarrow> False)"

text \<open>
  What the Polygon check of the handler accepts, in the words of the statements below. A
  pair \<open>p\<close> is accepted when \<open>p.length\<close> is 2 and \<open>p[0]\<close> and \<open>p[1]\<close> are finite numbers; the
  check does not ask whether \<open>p\<close> is an array. A ring is accepted when it can be iterated
  (an array or a string) and all its elements are accepted pairs; the coordinates are
  accepted when they can be iterated and all their elements are accepted rings.
\<close>

definition pairAccepted :: "jsval \<Rightarrow> bool" where
  "pairAccepted p =
     (getProp ''length'' p = Inr (JNum (Fin 2)) \<and> isFiniteNum (item 0 p) \<and> isFiniteNum (item 1 p))"

definition ringAccepted :: "jsval \<Rightarrow> bool" where
  "ringAccepted ring = (case spread ring of Inr pairs \<Rightarrow> list_all pairAccepted pairs | Inl e \<Rightarrow> False)"

definition polygonAccepted :: "jsval \<Rightarrow> bool" where
  "polygonAccepted coordinates =
     (case spread coordinates of Inr rings \<Rightarrow> list_all ringAccepted rings | Inl e \<Rightarrow> False)"

text \<open>
  The feature of an envelope is admitted to the store update: it has a typed geometry, and
  when the type is \<open>'Polygon'\<close> its coordinates are accepted.
\<close>

definition admitted :: "jsval \<Rightarrow> bool" where
  "admitted geoJsonData =
     (hasTypedGeometry geoJsonData \<and>
      (case getProp ''geometry'' geoJsonData of
         Inr geometry \<Rightarrow>
           getProp ''type'' geometry \<noteq> Inr (JStr ''Polygon'')
           \<or> (case getProp ''coordinates'' geometry of
                 Inr coordinates \<Rightarrow> polygonAccepted coordinates | Inl e \<Rightarrow> False)
       | Inl e \<Rightarrow> False))"

text \<open>Sample features and envelopes.\<close>

definition markerA :: jsval where
  "markerA = JObj [(''id'', JNum (Fin 1)),
     (''geometry'', JObj [(''type'', JStr ''Point''), (''coordinates'', JArr [JNum (Fin 1), JNum (Fin 2)])]),
     (''properties'', JObj [(''type'', JStr ''marker''), (''color'', JStr ''#fff''), (''name'', JStr ''A'')])]"

definition markerA' :: jsval where
  "markerA' = JObj [(''id'', JNum (Fin 1)),
     (''geometry'', JObj [(''type'', JStr ''Point''), (''coordinates'', JArr [JNum (Fin 1), JNum (Fin 2)])]),
     (''properties'', JObj [(''type'', JStr ''marker''), (''color'', JStr ''#000''), (''name'', JStr ''A'')])]"

definition lineB :: jsval where
  "lineB = JObj [(''id'', JNum (Fin 2)),
     (''geometry'', JObj [(''type'', JStr ''LineString''),
        (''coordinates'', JArr [JArr [JNum (Fin 0), JNum (Fin 0)], JArr [JNum (Fin 3), JNum (Fin 4)]])]),
     (''properties'', JObj [(''type'', JStr ''polyline''), (''color'', JStr ''#3388ff''), (''name'', JStr ''B'')])]"

definition badPolygon :: jsval where
  "badPolygon = JObj [(''id'', JNum (Fin 3)),
     (''geometry'', JObj [(''type'', JStr ''Polygon''),
        (''coordinates'', JArr [JArr [JArr [JNum (Fin 0), JNum (Fin 0)], JArr [JNum (Fin 4), JNum (Fin 0)],
                                      JArr [JNum (Fin 4), JStr ''abc''], JArr [JNum (Fin 0), JNum (Fin 0)]]])]),
     (''properties'', JObj [(''type'', JStr ''polygon''), (''color'', JStr ''#3388ff''), (''name'', JStr ''C'')])]"

text \<open>The square that \<open>badPolygon\<close> would be with the pair \<open>[4, 4]\<close>, under the same id.\<close>

definition squareC :: jsval where
  "squareC = JObj [(''id'', JNum (Fin 3)),
     (''geometry'', JObj [(''type'', JStr ''Polygon''),
        (''coordinates'', JArr [JArr [JArr [JNum (Fin 0), JNum (Fin 0)], JArr [JNum (Fin 4), JNum (Fin 0)],
                                      JArr [JNum (Fin 4), JNum (Fin 4)], JArr [JNum (Fin 0), JNum (Fin 0)]]])]),
     (''properties'', JObj [(''type'', JStr ''polygon''), (''color'', JStr ''#3388ff''), (''name'', JStr ''C'')])]"

text \<open>A Polygon whose ring holds the object \<open>{"0": 1, "1": 2, "length": 2}\<close> for a pair.\<close>

definition objectPairPolygon :: jsval where
  "objectPairPolygon = JObj [(''id'', JNum (Fin 8)),
     (''geometry'', JObj [(''type'', JStr ''Polygon''),
        (''coordinates'', JArr [JArr [JObj [(''0'', JNum (Fin 1)), (''1'', JNum (Fin 2)),
                                            (''length'', JNum (Fin 2))]]])]),
     (''properties'', JObj [])]"

definition badPoint :: jsval where
  "badPoint = JObj [(''id'', JNum (Fin 4)),
     (''geometry'', JObj [(''type'', JStr ''Point''), (''coordinates'', JArr [JNum (Fin 4), JStr ''abc''])]),
     (''properties'', JObj [(''type'', JStr ''marker''), (''color'', JStr ''#fff''), (''name'', JStr ''D'')])]"

definition envelope :: "string \<Rightarrow> jsval \<Rightarrow> jsval" where
  "envelope mtype feature = JObj [(''type'', JStr mtype), (''data'', feature)]"

definition envelopeWithId :: "string \<Rightarrow> jsval \<Rightarrow> jsval \<Rightarrow> jsval" where
  "envelopeWithId mtype mid feature = JObj [(''type'', JStr mtype), (''id'', mid), (''data'', feature)]"

section \<open>StatsProjector (App.jsx, getShapeStats)\<close>

subsection \<open>Arithmetic on numbers\<close>

text \<open>
  The arithmetic of the host on \<open>num\<close>: exact on finite values (no rounding, no overflow
  to an infinity), and as IEEE 754 has it on \<open>NaN\<close> and the infinities.
\<close>

fun negNum :: "num \<Rightarrow> num" where
  "negNum (Fin x) = Fin (- x)"
| "negNum PosInf = NegInf"
| "negNum NegInf = PosInf"
| "negNum NaN = NaN"

fun addNum :: "num \<Rightarrow> num \<Rightarrow> num" where
  "addNum (Fin x) (Fin y) = Fin (x + y)"
| "addNum NaN b = NaN"
| "addNum a NaN = NaN"
| "addNum PosInf NegInf = NaN"
| "addNum NegInf PosInf = NaN"
| "addNum PosInf b = PosInf"
| "addNum NegInf b = NegInf"
| "addNum a PosInf = PosInf"
| "addNum a NegInf = NegInf"

definition subNum :: "num \<Rightarrow> num \<Rightarrow> num" where
  "subNum a b = addNum a (negNum b)"

text \<open>An infinity times a finite value: \<open>NaN\<close> for zero, else the infinity of the product's sign.\<close>

definition infTimes :: "bool \<Rightarrow> real \<Rightarrow> num" where
  "infTimes positive x =
     (if x = 0 then NaN else if (0 < x) = positive then PosInf else NegInf)"

fun mulNum :: "num \<Rightarrow> num \<Rightarrow> num" where
  "mulNum (Fin x) (Fin y) = Fin (x * y)"
| "mulNum NaN b = NaN"
| "mulNum a NaN = NaN"
| "mulNum PosInf (Fin y) = infTimes True y"
| "mulNum NegInf (Fin y) = infTimes False y"
| "mulNum (Fin x) PosInf = infTimes True x"
| "mulNum (Fin x) NegInf = infTimes False x"
| "mulNum PosInf PosInf = PosInf"
| "mulNum NegInf NegInf = PosInf"
| "mulNum PosInf NegInf = NegInf"
| "mulNum NegInf PosInf = NegInf"

text \<open>Division by one of the positive constants \<open>2\<close>, \<open>1000\<close>, \<open>1_000_000\<close>.\<close>

fun divByConst :: "num \<Rightarrow> real \<Rightarrow> num" where
  "divByConst (Fin x) c = Fin (x / c)"
| "divByConst a c = a"

fun sqrtNum :: "num \<Rightarrow> num" where
  "sqrtNum (Fin x) = (if x < 0 then NaN else Fin (sqrt x))"
| "sqrtNum PosInf = PosInf"
| "sqrtNum a = NaN"

fun absNum :: "num \<Rightarrow> num" where
  "absNum (Fin x) = Fin \<bar>x\<bar>"
| "absNum NaN = NaN"
| "absNum a = PosInf"

text \<open>\<open>a ** 2\<close>\<close>

definition squareNum :: "num \<Rightarrow> num" where
  "squareNum a = mulNum a a"

subsection \<open>getShapeStats\<close>

record stats =
  type_field :: jsval
  color :: jsval
  area :: "num option"
  perimeter :: "num option"
  length_field :: "num option"
  position :: "jsval option"

text \<open>The array pattern \<open>[x, y]\<close>: the first two values the iterator of \<open>v\<close> yields.\<close>

definition destructPair :: "jsval \<Rightarrow> error + jsval \<times> jsval" where
  "destructPair v =
     bindE (spread v) (\<lambda>xs.
       Inr (if 0 < length xs then xs ! 0 else JUndef, if 1 < length xs then xs ! 1 else JUndef))"

text \<open>\<open>v.reduce(...)\<close> is there for an array only.\<close>

fun reducible :: "jsval \<Rightarrow> error + jsval list" where
  "reducible (JArr xs) = Inr xs"
| "reducible v = Inl TypeError"

text \<open>
  \<open>coords.reduce((sum, elem, i) => sum + term(i), 0)\<close>, the indices taken in order; the
  first exception ends it.
\<close>

fun reduceSum :: "(nat \<Rightarrow> error + num) \<Rightarrow> num \<Rightarrow> nat list \<Rightarrow> error + num" where
  "reduceSum f acc [] = Inr acc"
| "reduceSum f acc (i # rest) = bindE (f i) (\<lambda>t. reduceSum f (addNum acc t) rest)"

text \<open>\<open>x1 * y2 - x2 * y1\<close> with \<open>[x2, y2] = coords[(i + 1) % coords.length]\<close>\<close>

definition crossTerm :: "(jsval \<Rightarrow> num) \<Rightarrow> jsval list \<Rightarrow> nat \<Rightarrow> error + num" where
  "crossTerm tn coords i =
     bindE (destructPair (coords ! i)) (\<lambda>(x1, y1).
     bindE (destructPair (coords ! ((i + 1) mod length coords))) (\<lambda>(x2, y2).
       Inr (subNum (mulNum (toNumber tn x1) (toNumber tn y2))
                   (mulNum (toNumber tn x2) (toNumber tn y1)))))"

text \<open>\<open>Math.sqrt((x2 - x1) ** 2 + (y2 - y1) ** 2)\<close>\<close>

definition distance :: "(jsval \<Rightarrow> num) \<Rightarrow> jsval \<Rightarrow> jsval \<Rightarrow> jsval \<Rightarrow> jsval \<Rightarrow> num" where
  "distance tn x1 y1 x2 y2 =
     sqrtNum (addNum (squareNum (subNum (toNumber tn x2) (toNumber tn x1)))
                     (squareNum (subNum (toNumber tn y2) (toNumber tn y1))))"

definition edgeTerm :: "(jsval \<Rightarrow> num) \<Rightarrow> jsval list \<Rightarrow> nat \<Rightarrow> error + num" where
  "edgeTerm tn coords i =
     bindE (destructPair (coords ! i)) (\<lambda>(x1, y1).
     bindE (destructPair (coords ! ((i + 1) mod length coords))) (\<lambda>(x2, y2).
       Inr (distance tn x1 y1 x2 y2)))"

text \<open>
  The LineString callback \<open>i > 0 ? sum + Math.sqrt(...) : 0\<close>, with \<open>arr[i - 1][0]\<close> and
  \<open>arr[i - 1][1]\<close> read by index.
\<close>

fun lineLength :: "(jsval \<Rightarrow> num) \<Rightarrow> jsval list \<Rightarrow> num \<Rightarrow> nat list \<Rightarrow> error + num" where
  "lineLength tn arr acc [] = Inr acc"
| "lineLength tn arr acc (i # rest) =
     bindE (destructPair (arr ! i)) (\<lambda>(x1, y1).
       if 0 < i then
         bindE (elemAt 0 (arr ! (i - 1))) (\<lambda>px.
         bindE (elemAt 1 (arr ! (i - 1))) (\<lambda>py.
           lineLength tn arr (addNum acc (distance tn px py x1 y1)) rest))
       else lineLength tn arr (Fin 0) rest)"

definition getShapeStats :: "(jsval \<Rightarrow> num) \<Rightarrow> jsval \<Rightarrow> error + stats option" where
  "getShapeStats tn shape =
     (if \<not> truthy shape then Inr None
      else
        bindE (getProp ''geometry'' shape) (\<lambda>geometry.
        bindE (getProp ''properties'' shape) (\<lambda>properties.
        bindE (getProp ''type'' properties) (\<lambda>ptype.
        bindE (getProp ''color'' properties) (\<lambda>pcolor.
        (let st = \<lparr>type_field = ptype, color = pcolor, area = None, perimeter = None,
                   length_field = None, position = None\<rparr> in
         bindE (getProp ''type'' geometry) (\<lambda>gtype.
         bindE (getProp ''coordinates'' geometry) (\<lambda>coordinates.
           if gtype = JStr ''Polygon'' then
             bindE (elemAt 0 coordinates) (\<lambda>ring.
             bindE (reducible ring) (\<lambda>coords.
             bindE (reduceSum (crossTerm tn coords) (Fin 0) [0..<length coords]) (\<lambda>crossSum.
             bindE (reduceSum (edgeTerm tn coords) (Fin 0) [0..<length coords]) (\<lambda>perimeterInMeters.
               Inr (Some (st\<lparr>area := Some (divByConst (divByConst crossSum 2) 1000000),
                               perimeter := Some (divByConst perimeterInMeters 1000)\<rparr>))))))
           else if gtype = JStr ''LineString'' then
             bindE (reducible coordinates) (\<lambda>arr.
             bindE (lineLength tn arr (Fin 0) [0..<length arr]) (\<lambda>lengthInMeters.
               Inr (Some (st\<lparr>length_field := Some (divByConst lengthInMeters 1000)\<rparr>))))
           else if gtype = JStr ''Point'' then
             Inr (Some (st\<lparr>position := Some coordinates\<rparr>))
           else if gtype = JStr ''Circle'' then
             bindE (getProp ''radius'' properties) (\<lambda>radius.
               if truthy radius then
                 (let radiusInMeters = toNumber tn radius;
                      areaInSqMeters = mulNum (mulNum (Fin pi) radiusInMeters) radiusInMeters;
                      perimeterInMeters = mulNum (mulNum (Fin 2) (Fin pi)) radiusInMeters in
                  Inr (Some (st\<lparr>area := Some (divByConst areaInSqMeters 1000000),
                                  perimeter := Some (divByConst perimeterInMeters 1000),
                                  position := Some coordinates\<rparr>)))
               else Inr (Some (st\<lparr>position := Some coordinates\<rparr>)))
           else Inr (Some st)))))))))"

text \<open>
  The statistics panel shows \<open>Math.abs(stats.area)\<close> when \<open>stats.area\<close> is truthy (the value
  before it is rounded to two decimals for display).
\<close>

definition shownArea :: "stats \<Rightarrow> num option" where
  "shownArea st =
     (case area st of
        Some a \<Rightarrow> if truthy (JNum a) then Some (absNum a) else None
      | None \<Rightarrow> None)"

subsection \<open>The formulas of the specification\<close>

text \<open>
  The shoelace sum of a ring of vertices, each with its successor and the last with the
  first; and the sum of the lengths of the same edges.
\<close>

definition vertexAfter :: "(real \<times> real) list \<Rightarrow> nat \<Rightarrow> real \<times> real" where
  "vertexAfter vs i = vs ! ((i + 1) mod length vs)"

definition shoelaceSum :: "(real \<times> real) list \<Rightarrow> real" where
  "shoelaceSum vs =
     (\<Sum>i\<leftarrow>[0..<length vs]. fst (vs ! i) * snd (vertexAfter vs i) - fst (vertexAfter vs i) * snd (vs ! i))"

definition ringLength :: "(real \<times> real) list \<Rightarrow> real" where
  "ringLength vs =
     (\<Sum>i\<leftarrow>[0..<length vs]. sqrt ((fst (vertexAfter vs i) - fst (vs ! i))\<^sup>2
                                 + (snd (vertexAfter vs i) - snd (vs ! i))\<^sup>2))"

definition pairOf :: "real \<times> real \<Rightarrow> jsval" where
  "pairOf v = JArr [JNum (Fin (fst v)), JNum (Fin (snd v))]"

text \<open>A sample ring: the square of side 4, closed, counter-clockwise.\<close>

definition closedSquare :: "(real \<times> real) list" where
  "closedSquare = [(0, 0), (4, 0), (4, 4), (0, 4), (0, 0)]"

section \<open>ReconciliationEngine (DrawControl.jsx, the shapes effect)\<close>

text \<open>
  The rendering toolkit is outside the program. Of a layer the effect uses its \<open>feature\<close>
  (an object the code put there, or nothing), whether its editing handler is there and
  enabled, and which of the methods \<open>setStyle\<close> and \<open>setIcon\<close> it has. The toolkit's
  constructors are parameters: each returns a layer or throws, and the generic one may
  return no layer. What the effect asks of the toolkit is recorded, call by call, by the
  key of the layer concerned.

  Every element of \<open>shapes\<close> is a feature object here: App reads \<open>s.properties.type\<close> of each
  before DrawControl is rendered with them.
\<close>

record layer =
  layer_feature :: "props option"
  editing :: "bool option"
  hasSetStyle :: bool
  hasSetIcon :: bool

record renderer =
  newCircle :: "jsval \<Rightarrow> jsval \<Rightarrow> error + layer"
  newMarker :: "jsval \<Rightarrow> jsval \<Rightarrow> jsval \<Rightarrow> error + layer"
  newGeoJSON :: "jsval \<Rightarrow> jsval \<Rightarrow> error + layer option"

datatype call = RemoveLayer string | AddLayer string | ApplyStyles string

record engine =
  layerMap :: "(string \<times> layer) list"
  calls :: "call list"

text \<open>
  \<open>JSON.stringify(a) !== JSON.stringify(b)\<close>: two values have the same JSON text exactly
  when their JSON copies are equal (\<open>undefined\<close> has no text and equals only itself).
\<close>

definition jsonTextDiffers :: "jsval \<Rightarrow> jsval \<Rightarrow> bool" where
  "jsonTextDiffers a b = (jsonCopy a \<noteq> jsonCopy b)"

text \<open>\<open>{...a, ...b}\<close>\<close>

definition spreadMerge :: "jsval \<Rightarrow> jsval \<Rightarrow> jsval" where
  "spreadMerge a b =
     JObj (foldl (\<lambda>acc kv. AList.update (fst kv) (snd kv) acc) (AList.clearjunk (ownProps a)) (ownProps b))"

text \<open>
  The body of \<open>applyCurrentStyles\<close> for one shape: nothing when no layer is tracked under
  the shape's id; otherwise the layer's feature takes the shape's properties and the layer
  is styled by \<open>shape.properties.type\<close>. \<open>layer.setStyle\<close> is called unguarded for the path
  types, so a layer without it throws there.
\<close>

definition applyStylesTo :: "(jsval \<Rightarrow> string) \<Rightarrow> jsval \<Rightarrow> engine \<Rightarrow> error + engine" where
  "applyStylesTo ks shape en =
     bindE (getProp ''id'' shape) (\<lambda>sid.
       case map_of (layerMap en) (ks sid) of
         None \<Rightarrow> Inr en
       | Some l \<Rightarrow>
           (let lf0 = (case layer_feature l of None \<Rightarrow> [(''properties'', JObj [])] | Some f \<Rightarrow> f);
                lf1 = (if \<not> truthy (propOf lf0 ''properties'')
                       then AList.update ''properties'' (JObj []) lf0 else lf0)
            in bindE (getProp ''properties'' shape) (\<lambda>sprops.
               let lf2 = AList.update ''properties'' (spreadMerge (propOf lf1 ''properties'') sprops) lf1
               in bindE (getProp ''type'' sprops) (\<lambda>ptype.
                  if (ptype = JStr ''polyline'' \<or> ptype = JStr ''polygon''
                      \<or> ptype = JStr ''rectangle'' \<or> ptype = JStr ''circle'') \<and> \<not> hasSetStyle l
                  then Inl TypeError
                  else Inr (en\<lparr>layerMap := AList.update (ks sid) (l\<lparr>layer_feature := Some lf2\<rparr>) (layerMap en),
                               calls := calls en @ [ApplyStyles (ks sid)]\<rparr>)))))"

fun applyCurrentStyles :: "(jsval \<Rightarrow> string) \<Rightarrow> jsval list \<Rightarrow> engine \<Rightarrow> error + engine" where
  "applyCurrentStyles ks [] en = Inr en"
| "applyCurrentStyles ks (shape # rest) en =
     bindE (applyStylesTo ks shape en) (\<lambda>en'. applyCurrentStyles ks rest en')"

text \<open>
  The last-known geometry differs from the cleaned one:
  \<open>layer.feature.geometry.type !== cleanedFeature.geometry.type ||
   JSON.stringify(layer.feature.geometry.coordinates) !==
   JSON.stringify(cleanedFeature.geometry.coordinates)\<close>.
\<close>

definition geometryChanged :: "jsval \<Rightarrow> jsval \<Rightarrow> error + bool" where
  "geometryChanged known cleanedGeometry =
     bindE (getProp ''type'' known) (\<lambda>kt.
     bindE (getProp ''type'' cleanedGeometry) (\<lambda>ct.
       if \<not> strictEq False kt ct then Inr True
       else bindE (getProp ''coordinates'' known) (\<lambda>kc.
            bindE (getProp ''coordinates'' cleanedGeometry) (\<lambda>cc.
              Inr (jsonTextDiffers kc cc)))))"

definition shouldRecreateLayer :: "layer option \<Rightarrow> props \<Rightarrow> error + bool" where
  "shouldRecreateLayer tracked cleanedFeature =
     (case tracked of
        None \<Rightarrow> Inr True
      | Some l \<Rightarrow>
          (case layer_feature l of
             None \<Rightarrow> Inr True
           | Some lf \<Rightarrow>
               if truthy (propOf lf ''geometry'')
               then geometryChanged (propOf lf ''geometry'') (propOf cleanedFeature ''geometry'')
               else Inr True))"

text \<open>The three ways a layer is made: a circle, a marker, anything else through GeoJSON.\<close>

definition createLayer :: "renderer \<Rightarrow> props \<Rightarrow> error + layer option" where
  "createLayer r cleanedFeature =
     (let geometry = propOf cleanedFeature ''geometry'';
          properties = propOf cleanedFeature ''properties'' in
      bindE (getProp ''type'' geometry) (\<lambda>gtype.
      bindE (getProp ''coordinates'' geometry) (\<lambda>coordinates.
        if gtype = JStr ''Circle'' then
          bindE (newCircle r coordinates properties) (\<lambda>l. Inr (Some l))
        else
          bindE (getProp ''type'' properties) (\<lambda>ptype.
            if gtype = JStr ''Point'' \<and> ptype = JStr ''marker'' then
              bindE (elemAt 1 coordinates) (\<lambda>lat.
              bindE (elemAt 0 coordinates) (\<lambda>lon.
              bindE (newMarker r lat lon properties) (\<lambda>l. Inr (Some l))))
            else newGeoJSON r geometry properties))))"

text \<open>
  One turn of \<open>shapes.forEach\<close>. A layer that could not be made ends the turn before the
  styles are applied. (Initialising the editing handler of a new layer enables and disables
  it inside \<open>try\<close>/\<open>catch\<close>, which leaves it as it was.)
\<close>

definition syncFeature ::
    "renderer \<Rightarrow> (jsval \<Rightarrow> string) \<Rightarrow> (jsval \<Rightarrow> num) \<Rightarrow> props \<Rightarrow> engine \<Rightarrow> error + engine" where
  "syncFeature r ks pf shape en =
     (let key = ks (propOf shape ''id'');
          tracked = map_of (layerMap en) key in
      bindE (ensurePolygonClosedAndClean pf shape) (\<lambda>cleanedFeature.
      bindE (shouldRecreateLayer tracked cleanedFeature) (\<lambda>recreate.
        if recreate then
          (let en1 = (case tracked of
                        None \<Rightarrow> en
                      | Some old \<Rightarrow> en\<lparr>layerMap := AList.delete key (layerMap en),
                                       calls := calls en @ [RemoveLayer key]\<rparr>) in
           bindE (createLayer r cleanedFeature) (\<lambda>made.
             case made of
               None \<Rightarrow> Inr en1
             | Some l \<Rightarrow>
                 (let newKey = ks (propOf cleanedFeature ''id'');
                      en2 = en1\<lparr>layerMap := AList.update newKey (l\<lparr>layer_feature := Some cleanedFeature\<rparr>)
                                                (layerMap en1),
                                 calls := calls en1 @ [AddLayer newKey]\<rparr>
                  in applyCurrentStyles ks [JObj cleanedFeature] en2)))
        else applyCurrentStyles ks [JObj cleanedFeature] en)))"

fun syncFeatures ::
    "renderer \<Rightarrow> (jsval \<Rightarrow> string) \<Rightarrow> (jsval \<Rightarrow> num) \<Rightarrow> props list \<Rightarrow> engine \<Rightarrow> error + engine" where
  "syncFeatures r ks pf [] en = Inr en"
| "syncFeatures r ks pf (shape # rest) en =
     bindE (syncFeature r ks pf shape en) (\<lambda>en'. syncFeatures r ks pf rest en')"

text \<open>\<open>s.id.toString()\<close>: there is no method to call on \<open>undefined\<close> or \<open>null\<close>.\<close>

definition idString :: "(jsval \<Rightarrow> string) \<Rightarrow> props \<Rightarrow> error + string" where
  "idString ks shape =
     (if readable (propOf shape ''id'') then Inr (ks (propOf shape ''id'')) else Inl TypeError)"

fun idStrings :: "(jsval \<Rightarrow> string) \<Rightarrow> props list \<Rightarrow> error + string list" where
  "idStrings ks [] = Inr []"
| "idStrings ks (shape # rest) =
     bindE (idString ks shape) (\<lambda>k. bindE (idStrings ks rest) (\<lambda>kr. Inr (k # kr)))"

text \<open>The removal pass over \<open>Object.keys(layerMapRef.current)\<close>.\<close>

fun removeStale :: "string list \<Rightarrow> string list \<Rightarrow> engine \<Rightarrow> engine" where
  "removeStale currentShapeIds [] en = en"
| "removeStale currentShapeIds (key # rest) en =
     removeStale currentShapeIds rest
       (if key \<notin> set currentShapeIds
        then en\<lparr>layerMap := AList.delete key (layerMap en), calls := calls en @ [RemoveLayer key]\<rparr>
        else en)"

text \<open>The effect that runs when \<open>shapes\<close> has changed.\<close>

definition syncShapes ::
    "renderer \<Rightarrow> (jsval \<Rightarrow> string) \<Rightarrow> (jsval \<Rightarrow> num) \<Rightarrow> props list \<Rightarrow> engine \<Rightarrow> error + engine" where
  "syncShapes r ks pf shapes en =
     bindE (idStrings ks shapes) (\<lambda>currentShapeIds.
       syncFeatures r ks pf shapes
         (removeStale currentShapeIds (map fst (AList.clearjunk (layerMap en))) en))"

subsection \<open>Counting what happens to one layer\<close>

text \<open>The calls that concern the layer of one key, in order.\<close>

definition callsFor :: "string \<Rightarrow> call list \<Rightarrow> call list" where
  "callsFor key cs = filter (\<lambda>c. c = RemoveLayer key \<or> c = AddLayer key \<or> c = ApplyStyles key) cs"

definition removals :: "string \<Rightarrow> call list \<Rightarrow> nat" where
  "removals key cs = length (filter (\<lambda>c. c = RemoveLayer key) cs)"

definition creations :: "string \<Rightarrow> call list \<Rightarrow> nat" where
  "creations key cs = length (filter (\<lambda>c. c = AddLayer key) cs)"

definition restylings :: "string \<Rightarrow> call list \<Rightarrow> nat" where
  "restylings key cs = length (filter (\<lambda>c. c = ApplyStyles key) cs)"

text \<open>The style branch of \<open>applyCurrentStyles\<close> has the method it calls unguarded.\<close>

definition stylable :: "layer \<Rightarrow> props \<Rightarrow> bool" where
  "stylable l shape =
     (hasSetStyle l \<or>
      (case getProp ''type'' (propOf shape ''properties'') of
         Inr ptype \<Rightarrow> ptype \<noteq> JStr ''polyline'' \<and> ptype \<noteq> JStr ''polygon''
                       \<and> ptype \<noteq> JStr ''rectangle'' \<and> ptype \<noteq> JStr ''circle''
       | Inl e \<Rightarrow> False))"

text \<open>
  A sample run: a toolkit that makes a path for every geometry but markers, ids that are
  strings (their own keys), and an engine that tracks a road and a hut.
\<close>

definition pathLayer :: layer where
  "pathLayer = \<lparr>layer_feature = None, editing = Some False, hasSetStyle = True, hasSetIcon = False\<rparr>"

definition markerLayer :: layer where
  "markerLayer = \<lparr>layer_feature = None, editing = None, hasSetStyle = False, hasSetIcon = True\<rparr>"

definition sampleRenderer :: renderer where
  "sampleRenderer = \<lparr>newCircle = (\<lambda>center properties. Inr pathLayer),
                      newMarker = (\<lambda>lat lon properties. Inr markerLayer),
                      newGeoJSON = (\<lambda>geometry properties. Inr (Some pathLayer))\<rparr>"

fun stringKey :: "jsval \<Rightarrow> string" where
  "stringKey (JStr s) = s"
| "stringKey v = ''?''"

definition road :: "jsval \<Rightarrow> string \<Rightarrow> props" where
  "road coordinates colour =
     [(''id'', JStr ''road''),
      (''geometry'', JObj [(''type'', JStr ''LineString''), (''coordinates'', coordinates)]),
      (''properties'', JObj [(''type'', JStr ''polyline''), (''customType'', JStr ''default''),
                             (''color'', JStr colour)])]"

definition roadLine :: jsval where
  "roadLine = JArr [JArr [JNum (Fin 0), JNum (Fin 0)], JArr [JNum (Fin 3), JNum (Fin 4)]]"

definition roadLineMoved :: jsval where
  "roadLineMoved = JArr [JArr [JNum (Fin 0), JNum (Fin 0)], JArr [JNum (Fin 6), JNum (Fin 8)]]"

definition hut :: props where
  "hut = [(''id'', JStr ''hut''),
          (''geometry'', JObj [(''type'', JStr ''Point''), (''coordinates'', JArr [JNum (Fin 1), JNum (Fin 2)])]),
          (''properties'', JObj [(''type'', JStr ''marker''), (''color'', JStr ''#fff'')])]"

definition trackedEngine :: engine where
  "trackedEngine =
     \<lparr>layerMap = [(''road'', pathLayer\<lparr>layer_feature := Some (road roadLine ''#3388ff'')\<rparr>),
                  (''hut'', markerLayer\<lparr>layer_feature := Some hut\<rparr>)],
      calls = []\<rparr>"

section \<open>Properties of the GeometryValidator\<close>

subsection \<open>Property lists and the JSON copy\<close>

lemma defined_props_lookup:
  assumes "distinct (map fst kvs)"
  shows "map_of [kv\<leftarrow>kvs. snd kv \<noteq> JUndef] k
           = (if map_of kvs k = Some JUndef then None else map_of kvs k)"
  using assms
proof (induction kvs)
  case Nil
  then show ?case by simp
next
  case (Cons kv kvs)
  then show ?case
    by (cases kv) (auto simp: map_of_eq_None_iff image_iff)
qed

lemma map_of_jsonProps:
  "map_of (jsonProps kvs) k = (if map_of kvs k = Some JUndef then None else map_of kvs k)"
  unfolding jsonProps_def
  by (simp add: defined_props_lookup distinct_clearjunk map_of_clearjunk)

lemma map_of_map_snd:
  "map_of (map (\<lambda>kv. (fst kv, f (snd kv))) kvs) k = map_option f (map_of kvs k)"
  by (induction kvs) auto

lemma jsonCopy_Undef_iff: "jsonCopy v = JUndef \<longleftrightarrow> v = JUndef"
  by (cases v) auto

lemma propOf_jsonCopyObj: "propOf (jsonCopyObj f) k = jsonCopy (propOf f k)"
  by (auto simp: propOf_def jsonCopyObj_def map_of_jsonProps map_of_map_snd jsonCopy_Undef_iff split: option.splits)

lemma propOf_update: "propOf (AList.update k v f) k' = (if k' = k then v else propOf f k')"
  by (simp add: propOf_def update_conv')




lemma dec_0: "dec 0 = ''0''"
  by code_simp

lemma dec_1: "dec 1 = ''1''"
  by code_simp

lemma dec_Suc_0: "dec (Suc 0) = ''1''"
  by code_simp

subsection \<open>Coordinate sanitation\<close>

lemma clean_isArray: "isArray (cleanCoordinatesRecursive pf (JArr cs))"
  by (cases "(pf, JArr cs)" rule: cleanCoordinatePair.cases) (auto simp: origin_def Let_def)

lemma cleanCoordinatePair_leaf:
  "cleanCoordinatePair pf (JArr [a, b]) =
     (if isFinite (parseFloat pf a) \<and> isFinite (parseFloat pf b)
      then JArr [JNum (parseFloat pf a), JNum (parseFloat pf b)] else origin)"
  by (cases "parseFloat pf a"; cases "parseFloat pf b") (simp_all add: Let_def)

lemma isFiniteNum_JNum: "isFiniteNum (JNum n) = isFinite n"
  by (cases n) auto

lemma length2: "length cs = 2 \<Longrightarrow> \<exists>a b. cs = [a, b]"
  by (cases cs; cases "tl cs") auto

lemma isFiniteNum_isNumOrStr: "isFiniteNum v \<Longrightarrow> isNumOrStr v"
  by (cases v) auto

lemma isFiniteNum_parse: "isFiniteNum v \<Longrightarrow> JNum (parseFloat pf v) = v \<and> isFinite (parseFloat pf v)"
  by (cases v rule: isFiniteNum.cases) (auto simp: parseFloat_def)

lemma isArray_not_isNumOrStr: "isArray v \<Longrightarrow> \<not> isNumOrStr v"
  by (cases v) auto

lemma clean_isNumOrStr: "isNumOrStr (cleanCoordinatesRecursive pf v) \<Longrightarrow> isNumOrStr v"
proof (cases v)
  case (JArr cs)
  assume "isNumOrStr (cleanCoordinatesRecursive pf v)"
  then show ?thesis using clean_isArray[of pf cs] isArray_not_isNumOrStr JArr by blast
qed simp_all

lemma clean_leafPairsFinite: "leafPairsFinite (cleanCoordinatesRecursive pf t)"
proof (induction pf t rule: cleanCoordinatesRecursive.induct)
  case (1 pf cs)
  show ?case
  proof (cases "length cs = 2 \<and> isNumOrStr (cs ! 0) \<and> isNumOrStr (cs ! 1)")
    case True
    then obtain a b where cs: "cs = [a, b]" using length2 by blast
    show ?thesis using True unfolding cs
      by (simp add: cleanCoordinatePair_leaf origin_def isFiniteNum_JNum del: cleanCoordinatePair.simps)
  next
    case False
    have "list_all leafPairsFinite (map (cleanCoordinatesRecursive pf) cs)"
      using 1 False by (auto simp: list_all_iff)
    moreover have "\<not> (length cs = 2 \<and> isNumOrStr (cleanCoordinatesRecursive pf (cs ! 0))
        \<and> isNumOrStr (cleanCoordinatesRecursive pf (cs ! 1)))"
    proof
      assume h: "length cs = 2 \<and> isNumOrStr (cleanCoordinatesRecursive pf (cs ! 0))
        \<and> isNumOrStr (cleanCoordinatesRecursive pf (cs ! 1))"
      have nn: "\<And>v. isNumOrStr (cleanCoordinatesRecursive pf v) \<Longrightarrow> isNumOrStr v"
        by (rule clean_isNumOrStr)
      from h nn show False using False by blast
    qed
    ultimately show ?thesis using False by (auto simp: nth_map)
  qed
qed simp_all

lemma clean_fixed: "leafPairsFinite t \<Longrightarrow> cleanCoordinatesRecursive pf t = t"
proof (induction pf t rule: cleanCoordinatesRecursive.induct)
  case (1 pf cs)
  show ?case
  proof (cases "length cs = 2 \<and> isNumOrStr (cs ! 0) \<and> isNumOrStr (cs ! 1)")
    case True
    then obtain a b where cs: "cs = [a, b]" using length2 by blast
    from True 1(2) have "isFiniteNum a" "isFiniteNum b" by (auto simp: cs)
    then show ?thesis using True isFiniteNum_parse[of a pf] isFiniteNum_parse[of b pf] unfolding cs
      by (simp add: cleanCoordinatePair_leaf del: cleanCoordinatePair.simps)
  next
    case False
    then have "list_all leafPairsFinite cs" using 1(2) by auto
    then have "map (cleanCoordinatesRecursive pf) cs = cs"
      using 1(1) False by (auto simp: list_all_iff intro!: map_idI)
    then show ?thesis using False by auto
  qed
qed simp_all


text \<open>
  Claim C3: the code departs from it. \<open>cleanCoordinatePair\<close> answers a leaf of malformed
  shape with \<open>[0, 0]\<close>, but the walker \<open>cleanCoordinatesRecursive\<close> hands it only arrays of
  two numbers or strings: a position of three numbers, or a pair holding \<open>null\<close>, is walked
  element by element and comes back as it was. So does a line through such positions that
  goes through \<open>ensurePolygonClosedAndClean\<close>.
\<close>

theorem cleanCoordinatesRecursive_keeps_malformed_leaf:
  "cleanCoordinatePair pf (JArr [JNum (Fin 1), JNum (Fin 2), JNum (Fin 3)]) = origin
   \<and> cleanCoordinatesRecursive pf (JArr [JNum (Fin 1), JNum (Fin 2), JNum (Fin 3)])
       = JArr [JNum (Fin 1), JNum (Fin 2), JNum (Fin 3)]
   \<and> cleanCoordinatesRecursive pf (JArr [JNum (Fin 4), JNull]) = JArr [JNum (Fin 4), JNull]
   \<and> ensurePolygonClosedAndClean pf malformedLine = Inr malformedLine"
  by (simp add: origin_def parseFloat_def ensurePolygonClosedAndClean_def malformedLine_def
      jsonCopyObj_def jsonProps_def propOf_def Let_def)

subsection \<open>Ring closure\<close>





lemma elemAt_item: "readable p \<Longrightarrow> elemAt i p = Inr (item i p)"
  by (cases p) (auto simp: item_def)
















subsection \<open>The rings that reach the closure loop\<close>




lemma clean_notArray: "\<not> isArray v \<Longrightarrow> cleanCoordinatesRecursive pf v = v"
  by (cases v) auto












lemma openSquare_closed:
  "ensurePolygonClosedAndClean pf openSquare =
     Inr [(''id'', JNum (Fin 1)),
          (''geometry'', JObj [(''type'', JStr ''Polygon''),
             (''coordinates'', JArr [JArr (openSquareRing @ [JArr [JNum (Fin 0), JNum (Fin 0)]])])]),
          (''properties'', JObj [])]"
  by (simp add: ensurePolygonClosedAndClean_def openSquare_def openSquareGeometry_def
      openSquareRing_def jsonCopyObj_def jsonProps_def propOf_def Let_def bindE_def
      pointsDiffer_def parseFloat_def)

subsection \<open>The validator throws\<close>

text \<open>
  Claim C8: the code departs from it. The closure loop checks that a ring is a non-empty
  array and then reads index 0 of its first and of its last point without looking at them:
  on a Polygon whose ring holds \<open>null\<close> the validator throws a \<open>TypeError\<close> and returns
  no feature.
\<close>

theorem ensurePolygonClosedAndClean_throws_on_null_point:
  "ensurePolygonClosedAndClean pf nullPointPolygon = Inl TypeError
   \<and> closeRing (JArr [JNull]) = Inl TypeError"
  by (simp add: ensurePolygonClosedAndClean_def nullPointPolygon_def jsonCopyObj_def
      jsonProps_def propOf_def Let_def bindE_def pointsDiffer_def)

section \<open>Properties of the store\<close>

lemma readable_getProp: "readable s \<Longrightarrow> \<exists>v. getProp k s = Inr v"
  by (cases s) auto

lemma findIndexById_none:
  "list_all readable prev \<Longrightarrow> \<forall>s\<in>set prev. \<not> idMatches target s \<Longrightarrow>
   findIndexById target prev = Inr None"
proof (induction prev)
  case Nil
  then show ?case by simp
next
  case (Cons s prev)
  then obtain sid where "getProp ''id'' s = Inr sid" using readable_getProp by fastforce
  then show ?case using Cons by (simp add: bindE_def idMatches_def)
qed

lemma findIndexById_some:
  "list_all readable prev \<Longrightarrow> i < length prev \<Longrightarrow> idMatches target (prev ! i) \<Longrightarrow>
   \<forall>j<i. \<not> idMatches target (prev ! j) \<Longrightarrow> findIndexById target prev = Inr (Some i)"
proof (induction prev arbitrary: i)
  case Nil
  then show ?case by simp
next
  case (Cons s prev)
  obtain sid where sid: "getProp ''id'' s = Inr sid" using Cons.prems(1) readable_getProp by fastforce
  show ?case
  proof (cases i)
    case 0
    then show ?thesis using Cons.prems sid by (simp add: bindE_def idMatches_def)
  next
    case (Suc k)
    have ns: "\<not> idMatches target s" using Cons.prems(4) Suc by auto
    have rest: "\<forall>j<k. \<not> idMatches target (prev ! j)"
    proof (intro allI impI)
      fix j assume "j < k"
      then have "\<not> idMatches target ((s # prev) ! Suc j)" using Cons.prems(4) Suc by blast
      then show "\<not> idMatches target (prev ! j)" by simp
    qed
    have fk: "findIndexById target prev = Inr (Some k)"
      using Cons.IH[of k] Cons.prems Suc rest by auto
    show ?thesis using ns fk sid Suc by (simp add: bindE_def idMatches_def)
  qed
qed

lemma findIndexById_present:
  "\<exists>s\<in>set prev. idMatches target s \<Longrightarrow> findIndexById target prev \<noteq> Inr None"
proof (induction prev)
  case Nil
  then show ?case by simp
next
  case (Cons s prev)
  then show ?case
    by (cases "getProp ''id'' s"; cases "findIndexById target prev")
       (auto simp: bindE_def idMatches_def)
qed

lemma handle_add_modify:
  assumes "getProp ''type'' message = Inr mtype"
    and "mtype = JStr ''add'' \<or> mtype = JStr ''modify''"
    and "getProp ''data'' message = Inr d"
    and "getProp ''updates'' message = Inr u"
    and "hasTypedGeometry (orElse d u)"
    and "getProp ''geometry'' (orElse d u) = Inr geometry"
    and "getProp ''type'' geometry = Inr gtype"
  shows "handleIncomingMessage tn message shapes =
     bindE (if gtype = JStr ''Polygon'' then polygonCoordinatesValid tn geometry else Inr True)
       (\<lambda>ok. if ok then updateShapes message (orElse d u) mtype shapes else Inr shapes)"
  using assms by (auto simp: handleIncomingMessage_def bindE_def Let_def)

lemma handle_not_typed:
  assumes "getProp ''type'' message = Inr mtype"
    and "mtype = JStr ''add'' \<or> mtype = JStr ''modify''"
    and "getProp ''data'' message = Inr d"
    and "getProp ''updates'' message = Inr u"
    and "\<not> hasTypedGeometry (orElse d u)"
  shows "handleIncomingMessage tn message shapes = Inr shapes"
  using assms by (auto simp: handleIncomingMessage_def bindE_def Let_def)

lemma hasTypedGeometry_props:
  "hasTypedGeometry data \<Longrightarrow> \<exists>geometry gtype. getProp ''geometry'' data = Inr geometry
      \<and> getProp ''type'' geometry = Inr gtype"
  by (auto simp: hasTypedGeometry_def split: sum.splits)

lemma type_is_object:
  "getProp ''type'' message = Inr (JStr t) \<Longrightarrow> \<exists>m. message = JObj m"
  by (cases message) (auto split: if_splits)

lemma updateShapes_add_present:
  assumes "targetId message data = Inr target" "\<exists>s\<in>set prev. idMatches target s"
  shows "updateShapes message data (JStr ''add'') prev = Inr prev
       \<or> (\<exists>e. updateShapes message data (JStr ''add'') prev = Inl e)"
  using assms findIndexById_present[of prev target]
  by (cases "findIndexById target prev") (auto simp: updateShapes_def bindE_def split: option.splits)


lemma isFiniteNum_numberIsFinite: "numberIsFinite v = isFiniteNum v"
  by (cases v rule: isFiniteNum.cases) auto

lemma isFiniteNum_not_NaN: "isFiniteNum v \<Longrightarrow> \<not> globalIsNaN tn v"
  by (cases v rule: isFiniteNum.cases) (auto simp: globalIsNaN_def toNumber_def)

lemma strictEq_two: "strictEq False v (JNum (Fin 2)) \<longleftrightarrow> v = JNum (Fin 2)"
  by (cases v) auto

text \<open>The Polygon check lets through exactly what \<open>polygonAccepted\<close> describes.\<close>

lemma pairInvalid_accepted: "pairInvalid tn p = Inr False \<longleftrightarrow> pairAccepted p"
proof (cases "readable p")
  case False
  then show ?thesis by (cases p) (auto simp: pairInvalid_def pairAccepted_def bindE_def)
next
  case True
  then obtain len where len: "getProp ''length'' p = Inr len" using readable_getProp by blast
  show ?thesis
    using isFiniteNum_not_NaN[of "item 0 p" tn] isFiniteNum_not_NaN[of "item 1 p" tn]
    by (auto simp: pairInvalid_def pairAccepted_def bindE_def len strictEq_two
        elemAt_item[OF True] isFiniteNum_numberIsFinite)
qed

lemma pairsValid_accepted: "pairsValid tn pairs = Inr True \<longleftrightarrow> list_all pairAccepted pairs"
proof (induction pairs)
  case Nil
  then show ?case by simp
next
  case (Cons p pairs)
  show ?case using Cons pairInvalid_accepted[of tn p]
    by (cases "pairInvalid tn p") (auto simp: bindE_def)
qed

lemma ringsValid_accepted: "ringsValid tn rings = Inr True \<longleftrightarrow> list_all ringAccepted rings"
proof (induction rings)
  case Nil
  then show ?case by simp
next
  case (Cons r rings)
  show ?case
  proof (cases "spread r")
    case (Inl e)
    then show ?thesis by (simp add: bindE_def ringAccepted_def)
  next
    case (Inr pairs)
    show ?thesis using Cons pairsValid_accepted[of tn pairs] Inr
      by (cases "pairsValid tn pairs") (auto simp: bindE_def ringAccepted_def)
  qed
qed

lemma polygonCoordinatesValid_accepted:
  "getProp ''coordinates'' geometry = Inr coordinates \<Longrightarrow>
   polygonCoordinatesValid tn geometry = Inr True \<longleftrightarrow> polygonAccepted coordinates"
  by (cases "spread coordinates")
     (auto simp: polygonCoordinatesValid_def polygonAccepted_def bindE_def ringsValid_accepted)

lemma typed_coordinates:
  "hasTypedGeometry data \<Longrightarrow> getProp ''geometry'' data = Inr geometry \<Longrightarrow>
   \<exists>coordinates. getProp ''coordinates'' geometry = Inr coordinates"
  by (cases geometry) (auto simp: hasTypedGeometry_def)

lemma updateShapes_absent:
  assumes "targetId message data = Inr target" "list_all readable prev"
    "\<forall>s\<in>set prev. \<not> idMatches target s"
  shows "updateShapes message data mtype prev = Inr (prev @ [data])"
  using assms findIndexById_none[of prev target]
  by (simp add: updateShapes_def bindE_def)

lemma updateShapes_modify_present:
  assumes "targetId message data = Inr target" "list_all readable prev"
    "i < length prev" "idMatches target (prev ! i)" "\<forall>j<i. \<not> idMatches target (prev ! j)"
  shows "updateShapes message data (JStr ''modify'') prev = Inr (prev[i := withId target data])"
  using assms findIndexById_some[of prev i target]
  by (simp add: updateShapes_def bindE_def)

text \<open>The handler on an \<open>add\<close> or \<open>modify\<close> envelope: the feature is admitted, or the store stays.\<close>

lemma handle_admitted:
  assumes "propOf m ''type'' = JStr ''add'' \<or> propOf m ''type'' = JStr ''modify''"
    and "geoJsonData = orElse (propOf m ''data'') (propOf m ''updates'')"
    and "admitted geoJsonData"
  shows "handleIncomingMessage tn (JObj m) shapes
       = updateShapes (JObj m) geoJsonData (propOf m ''type'') shapes"
proof -
  have ty: "hasTypedGeometry geoJsonData" using assms(3) by (simp add: admitted_def)
  then obtain geometry gtype where g: "getProp ''geometry'' geoJsonData = Inr geometry"
      "getProp ''type'' geometry = Inr gtype"
    using hasTypedGeometry_props by blast
  obtain coordinates where c: "getProp ''coordinates'' geometry = Inr coordinates"
    using typed_coordinates[OF ty g(1)] by blast
  have H: "handleIncomingMessage tn (JObj m) shapes =
     bindE (if gtype = JStr ''Polygon'' then polygonCoordinatesValid tn geometry else Inr True)
       (\<lambda>ok. if ok then updateShapes (JObj m) geoJsonData (propOf m ''type'') shapes else Inr shapes)"
    using handle_add_modify[of "JObj m" "propOf m ''type''" "propOf m ''data''" "propOf m ''updates''"
        geometry gtype tn shapes] assms(1,2) ty g by auto
  have "gtype \<noteq> JStr ''Polygon'' \<or> polygonAccepted coordinates"
    using assms(3) g c by (auto simp: admitted_def)
  then have "(if gtype = JStr ''Polygon'' then polygonCoordinatesValid tn geometry else Inr True) = Inr True"
    using polygonCoordinatesValid_accepted[OF c, of tn] by auto
  then show ?thesis unfolding H by (simp add: bindE_def)
qed

lemma handle_not_admitted:
  assumes "propOf m ''type'' = JStr ''add'' \<or> propOf m ''type'' = JStr ''modify''"
    and "geoJsonData = orElse (propOf m ''data'') (propOf m ''updates'')"
    and "\<not> admitted geoJsonData"
  shows "storeAfter tn (JObj m) shapes = shapes"
proof (cases "hasTypedGeometry geoJsonData")
  case False
  then have "handleIncomingMessage tn (JObj m) shapes = Inr shapes"
    using handle_not_typed[of "JObj m" "propOf m ''type''" "propOf m ''data''" "propOf m ''updates''" tn shapes]
      assms(1,2) by auto
  then show ?thesis by (simp add: storeAfter_def)
next
  case True
  then obtain geometry gtype where g: "getProp ''geometry'' geoJsonData = Inr geometry"
      "getProp ''type'' geometry = Inr gtype"
    using hasTypedGeometry_props by blast
  obtain coordinates where c: "getProp ''coordinates'' geometry = Inr coordinates"
    using typed_coordinates[OF True g(1)] by blast
  have H: "handleIncomingMessage tn (JObj m) shapes =
     bindE (if gtype = JStr ''Polygon'' then polygonCoordinatesValid tn geometry else Inr True)
       (\<lambda>ok. if ok then updateShapes (JObj m) geoJsonData (propOf m ''type'') shapes else Inr shapes)"
    using handle_add_modify[of "JObj m" "propOf m ''type''" "propOf m ''data''" "propOf m ''updates''"
        geometry gtype tn shapes] assms(1,2) True g by auto
  have "gtype = JStr ''Polygon'' \<and> \<not> polygonAccepted coordinates"
    using assms(3) True g c by (auto simp: admitted_def)
  then have "gtype = JStr ''Polygon''" "polygonCoordinatesValid tn geometry \<noteq> Inr True"
    using polygonCoordinatesValid_accepted[OF c, of tn] by auto
  then show ?thesis unfolding storeAfter_def H
    by (cases "polygonCoordinatesValid tn geometry") (auto simp: bindE_def)
qed

text \<open>
  Claim C1, as the code has it. The handler does not correct coordinates; it has a check
  for Polygons. For an inbound \<open>add\<close> or \<open>modify\<close> whose feature has a typed geometry:

  \<^item> when the type is \<open>'Polygon'\<close> and the coordinates are not accepted (\<open>polygonAccepted\<close>:
    every element \<open>p\<close> of every ring has \<open>p.length\<close> 2 and finite numbers at \<open>p[0]\<close> and
    \<open>p[1]\<close>), the envelope is dropped and the store stays as it was;
  \<^item> in every other case (another type, whatever its coordinates, or an accepted Polygon)
    the envelope goes to the store update; when the store can be read and has no feature
    of the addressed id, the feature is appended exactly as received.
\<close>

theorem inbound_coordinates_gate:
  assumes "propOf m ''type'' = JStr ''add'' \<or> propOf m ''type'' = JStr ''modify''"
    and "geoJsonData = orElse (propOf m ''data'') (propOf m ''updates'')"
    and "hasTypedGeometry geoJsonData"
    and "getProp ''geometry'' geoJsonData = Inr geometry"
    and "getProp ''type'' geometry = Inr gtype"
    and "getProp ''coordinates'' geometry = Inr coordinates"
  shows "(gtype = JStr ''Polygon'' \<and> \<not> polygonAccepted coordinates
          \<longrightarrow> storeAfter tn (JObj m) shapes = shapes)
       \<and> (gtype \<noteq> JStr ''Polygon'' \<or> polygonAccepted coordinates
          \<longrightarrow> handleIncomingMessage tn (JObj m) shapes
              = updateShapes (JObj m) geoJsonData (propOf m ''type'') shapes)
       \<and> ((gtype \<noteq> JStr ''Polygon'' \<or> polygonAccepted coordinates)
            \<and> targetId (JObj m) geoJsonData = Inr target
            \<and> list_all readable shapes \<and> (\<forall>s\<in>set shapes. \<not> idMatches target s)
          \<longrightarrow> handleIncomingMessage tn (JObj m) shapes = Inr (shapes @ [geoJsonData]))"
proof -
  have ad: "admitted geoJsonData \<longleftrightarrow> gtype \<noteq> JStr ''Polygon'' \<or> polygonAccepted coordinates"
    using assms(3-6) by (simp add: admitted_def)
  have 1: "gtype = JStr ''Polygon'' \<and> \<not> polygonAccepted coordinates
          \<longrightarrow> storeAfter tn (JObj m) shapes = shapes"
    using handle_not_admitted[OF assms(1,2)] ad by blast
  have 2: "gtype \<noteq> JStr ''Polygon'' \<or> polygonAccepted coordinates
          \<longrightarrow> handleIncomingMessage tn (JObj m) shapes
              = updateShapes (JObj m) geoJsonData (propOf m ''type'') shapes"
    using handle_admitted[OF assms(1,2)] ad by blast
  have 3: "(gtype \<noteq> JStr ''Polygon'' \<or> polygonAccepted coordinates)
            \<and> targetId (JObj m) geoJsonData = Inr target
            \<and> list_all readable shapes \<and> (\<forall>s\<in>set shapes. \<not> idMatches target s)
          \<longrightarrow> handleIncomingMessage tn (JObj m) shapes = Inr (shapes @ [geoJsonData])"
    using 2 updateShapes_absent[of "JObj m" geoJsonData target shapes "propOf m ''type''"] by auto
  show ?thesis using 1 2 3 by blast
qed

text \<open>
  Claim C1, witness: a Polygon with the pair \<open>[4, "abc"]\<close> is dropped; a Point with the
  same pair, and a Polygon with an object of length 2 for a pair, are stored as they came.
\<close>

theorem inbound_coordinates_gate_witness:
  "storeAfter hostNaN (envelope ''add'' badPolygon) [markerA] = [markerA]
   \<and> handleIncomingMessage hostNaN (envelope ''add'' badPoint) [markerA] = Inr [markerA, badPoint]
   \<and> handleIncomingMessage hostNaN (envelope ''modify'' objectPairPolygon) [markerA]
       = Inr [markerA, objectPairPolygon]"
proof -
  let ?m = "\<lambda>t f. [(''type'', JStr t), (''data'', f)]"
  have m: "\<And>t f. envelope t f = JObj (?m t f)"
    by (simp add: envelope_def)
  let ?r1 = "[JArr [JArr [JNum (Fin 0), JNum (Fin 0)], JArr [JNum (Fin 4), JNum (Fin 0)],
                    JArr [JNum (Fin 4), JStr ''abc''], JArr [JNum (Fin 0), JNum (Fin 0)]]]"
  let ?g1 = "JObj [(''type'', JStr ''Polygon''), (''coordinates'', JArr ?r1)]"
  let ?g2 = "JObj [(''type'', JStr ''Point''), (''coordinates'', JArr [JNum (Fin 4), JStr ''abc''])]"
  let ?r3 = "[JArr [JObj [(''0'', JNum (Fin 1)), (''1'', JNum (Fin 2)), (''length'', JNum (Fin 2))]]]"
  let ?g3 = "JObj [(''type'', JStr ''Polygon''), (''coordinates'', JArr ?r3)]"
  have 1: "storeAfter hostNaN (JObj (?m ''add'' badPolygon)) [markerA] = [markerA]"
    using inbound_coordinates_gate[where m = "?m ''add'' badPolygon" and geoJsonData = badPolygon
        and geometry = ?g1 and gtype = "JStr ''Polygon''" and coordinates = "JArr ?r1"
        and tn = hostNaN and shapes = "[markerA]", THEN conjunct1]
    by (simp add: propOf_def orElse_def badPolygon_def hasTypedGeometry_def polygonAccepted_def
        ringAccepted_def pairAccepted_def item_def)
  have 2: "handleIncomingMessage hostNaN (JObj (?m ''add'' badPoint)) [markerA] = Inr [markerA, badPoint]"
    using inbound_coordinates_gate[where m = "?m ''add'' badPoint" and geoJsonData = badPoint
        and geometry = ?g2 and gtype = "JStr ''Point''" and coordinates = "JArr [JNum (Fin 4), JStr ''abc'']"
        and target = "JNum (Fin 4)" and tn = hostNaN and shapes = "[markerA]",
        THEN conjunct2, THEN conjunct2]
    by (simp add: propOf_def orElse_def badPoint_def hasTypedGeometry_def targetId_def bindE_def
        markerA_def idMatches_def)
  have 3: "handleIncomingMessage hostNaN (JObj (?m ''modify'' objectPairPolygon)) [markerA]
      = Inr [markerA, objectPairPolygon]"
    using inbound_coordinates_gate[where m = "?m ''modify'' objectPairPolygon"
        and geoJsonData = objectPairPolygon
        and geometry = ?g3 and gtype = "JStr ''Polygon''" and coordinates = "JArr ?r3"
        and target = "JNum (Fin 8)" and tn = hostNaN and shapes = "[markerA]",
        THEN conjunct2, THEN conjunct2]
    by (simp add: propOf_def orElse_def objectPairPolygon_def hasTypedGeometry_def targetId_def
        bindE_def markerA_def idMatches_def polygonAccepted_def ringAccepted_def pairAccepted_def
        item_def dec_0 dec_1 dec_Suc_0 del: dec.simps)
  show ?thesis using 1 2 3 m by simp
qed

text \<open>
  Claim C1 as stated fails: an \<open>add\<close> of a Polygon with a malformed pair does not enter the
  store.
\<close>

theorem inbound_bad_polygon_counterexample:
  "handleIncomingMessage hostNaN (envelope ''add'' badPolygon) [] = Inr []"
  by (simp add: handleIncomingMessage_def envelope_def badPolygon_def bindE_def propOf_def
      orElse_def hasTypedGeometry_def polygonCoordinatesValid_def pairInvalid_def Let_def)


text \<open>
  Claim C4, as the code has it. The id an envelope addresses is \<open>message.id\<close> when that is
  truthy, and the feature's id otherwise. An \<open>add\<close> envelope that addresses an id some
  stored feature has leaves the store as it was; so does, in particular, an \<open>add\<close> envelope
  without a truthy \<open>id\<close> of its own whose feature id is in the store.
\<close>

theorem add_existing_id_leaves_store:
  assumes "propOf m ''type'' = JStr ''add''"
    and "geoJsonData = orElse (propOf m ''data'') (propOf m ''updates'')"
  shows "(targetId (JObj m) geoJsonData = Inr target \<and> (\<exists>s\<in>set shapes. idMatches target s)
          \<longrightarrow> storeAfter tn (JObj m) shapes = shapes)
       \<and> (\<not> truthy (propOf m ''id'') \<and> getProp ''id'' geoJsonData = Inr fid
            \<and> (\<exists>s\<in>set shapes. idMatches fid s)
          \<longrightarrow> storeAfter tn (JObj m) shapes = shapes)"
proof -
  have A: "storeAfter tn (JObj m) shapes = shapes"
    if t: "targetId (JObj m) geoJsonData = Inr target" and p: "\<exists>s\<in>set shapes. idMatches target s"
    for target
  proof (cases "admitted geoJsonData")
    case False
    then show ?thesis using handle_not_admitted[of m geoJsonData tn shapes] assms by simp
  next
    case True
    have "handleIncomingMessage tn (JObj m) shapes
        = updateShapes (JObj m) geoJsonData (JStr ''add'') shapes"
      using handle_admitted[of m geoJsonData tn shapes] assms True by simp
    then show ?thesis
      unfolding storeAfter_def
      using updateShapes_add_present[OF t p]
      by (auto split: sum.splits)
  qed
  have B: "targetId (JObj m) geoJsonData = Inr fid"
    if "\<not> truthy (propOf m ''id'')" "getProp ''id'' geoJsonData = Inr fid"
    using that by (simp add: targetId_def bindE_def)
  show ?thesis using A B by blast
qed

text \<open>
  Claim C4, witness: an \<open>add\<close> for id 1 with new properties, id 1 being stored, with and
  without an id on the envelope.
\<close>

theorem add_existing_id_leaves_store_witness:
  "storeAfter hostNaN (envelopeWithId ''add'' (JNum (Fin 1)) markerA') [lineB, markerA] = [lineB, markerA]
   \<and> storeAfter hostNaN (envelope ''add'' markerA') [lineB, markerA] = [lineB, markerA]"
  using add_existing_id_leaves_store[where m = "[(''type'', JStr ''add''), (''id'', JNum (Fin 1)), (''data'', markerA')]"
      and geoJsonData = markerA' and target = "JNum (Fin 1)" and shapes = "[lineB, markerA]"
      and tn = hostNaN and fid = "JNum (Fin 1)"]
    add_existing_id_leaves_store[where m = "[(''type'', JStr ''add''), (''data'', markerA')]"
      and geoJsonData = markerA' and target = "JNum (Fin 1)" and shapes = "[lineB, markerA]"
      and tn = hostNaN and fid = "JNum (Fin 1)"]
  by (simp add: envelope_def envelopeWithId_def propOf_def orElse_def targetId_def bindE_def
      markerA'_def markerA_def idMatches_def)

text \<open>
  Claim C4 as stated fails: an \<open>add\<close> envelope whose own id is 99 and whose feature has the
  stored id 1 appends the feature; the store then holds two features of id 1.
\<close>

theorem add_other_envelope_id_counterexample:
  "handleIncomingMessage hostNaN (envelopeWithId ''add'' (JNum (Fin 99)) markerA') [markerA]
     = Inr [markerA, markerA']
   \<and> getProp ''id'' markerA' = getProp ''id'' markerA"
  by (simp add: handleIncomingMessage_def envelopeWithId_def markerA_def markerA'_def bindE_def
      propOf_def orElse_def hasTypedGeometry_def updateShapes_def targetId_def Let_def)

text \<open>
  Claim C5. A \<open>bulkAdd\<close> packet whose \<open>data\<close> is an array makes the store that array,
  through \<open>processBulkAddPacket\<close> and through the handler; a packet of another type, or
  whose \<open>data\<close> is no array, leaves the store as it was.
\<close>

theorem bulkAdd_replaces_store:
  "(getProp ''type'' packet = Inr (JStr ''bulkAdd'') \<and> getProp ''data'' packet = Inr (JArr features)
      \<longrightarrow> processBulkAddPacket packet shapes = features
          \<and> handleIncomingMessage tn packet shapes = Inr features)
   \<and> (getProp ''type'' packet \<noteq> Inr (JStr ''bulkAdd'') \<or> (\<forall>fs. getProp ''data'' packet \<noteq> Inr (JArr fs))
      \<longrightarrow> processBulkAddPacket packet shapes = shapes)
   \<and> (getProp ''type'' packet = Inr (JStr ''bulkAdd'') \<and> (\<forall>fs. getProp ''data'' packet \<noteq> Inr (JArr fs))
      \<longrightarrow> handleIncomingMessage tn packet shapes = Inr shapes)"
proof -
  have t: "truthy packet" if "getProp ''type'' packet = Inr (JStr ''bulkAdd'')"
    using that by (cases packet) (auto split: if_splits)
  show ?thesis
    using t by (auto simp: processBulkAddPacket_def handleIncomingMessage_def bindE_def
        split: sum.splits jsval.splits)
qed

text \<open>Claim C5, witness: a replacement, a \<open>bulkAdd\<close> with an object as data, and an \<open>add\<close> packet.\<close>

theorem bulkAdd_replaces_store_witness:
  "processBulkAddPacket (JObj [(''type'', JStr ''bulkAdd''), (''data'', JArr [markerA, lineB])]) [badPoint]
      = [markerA, lineB]
   \<and> handleIncomingMessage hostNaN (JObj [(''type'', JStr ''bulkAdd''), (''data'', JArr [markerA, lineB])]) [badPoint]
      = Inr [markerA, lineB]
   \<and> processBulkAddPacket (JObj [(''type'', JStr ''bulkAdd''), (''data'', markerA)]) [badPoint] = [badPoint]
   \<and> handleIncomingMessage hostNaN (JObj [(''type'', JStr ''bulkAdd''), (''data'', markerA)]) [badPoint] = Inr [badPoint]
   \<and> processBulkAddPacket (JObj [(''type'', JStr ''add''), (''data'', JArr [markerA, lineB])]) [badPoint] = [badPoint]"
  using bulkAdd_replaces_store[of "JObj [(''type'', JStr ''bulkAdd''), (''data'', JArr [markerA, lineB])]"
      "[markerA, lineB]" "[badPoint]" hostNaN]
    bulkAdd_replaces_store[of "JObj [(''type'', JStr ''bulkAdd''), (''data'', markerA)]" "[]" "[badPoint]" hostNaN]
    bulkAdd_replaces_store[of "JObj [(''type'', JStr ''add''), (''data'', JArr [markerA, lineB])]" "[]" "[badPoint]" hostNaN]
  by (simp add: propOf_def markerA_def)

text \<open>
  Claim C6, as the code has it. A \<open>modify\<close> envelope reaches the store only when its feature
  is admitted: it has a typed geometry and, if that is a Polygon, coordinates the handler's
  check accepts. For an admitted feature, on a store whose features can be read: the first
  feature with the addressed id is replaced, at its position, by the envelope's feature
  carrying that id, every other position unchanged; when no feature has the id, the
  envelope's feature is appended. A feature that is not admitted changes nothing, whether
  or not its id is in the store.
\<close>

theorem modify_replaces_in_place:
  assumes "propOf m ''type'' = JStr ''modify''"
    and "geoJsonData = orElse (propOf m ''data'') (propOf m ''updates'')"
  shows "(admitted geoJsonData \<and> targetId (JObj m) geoJsonData = Inr target
            \<and> list_all readable shapes
            \<and> i < length shapes \<and> idMatches target (shapes ! i) \<and> (\<forall>j<i. \<not> idMatches target (shapes ! j))
          \<longrightarrow> handleIncomingMessage tn (JObj m) shapes = Inr (shapes[i := withId target geoJsonData]))
       \<and> (admitted geoJsonData \<and> targetId (JObj m) geoJsonData = Inr target
            \<and> list_all readable shapes \<and> (\<forall>s\<in>set shapes. \<not> idMatches target s)
          \<longrightarrow> handleIncomingMessage tn (JObj m) shapes = Inr (shapes @ [geoJsonData]))
       \<and> (\<not> admitted geoJsonData \<longrightarrow> storeAfter tn (JObj m) shapes = shapes)"
proof -
  have H: "handleIncomingMessage tn (JObj m) shapes
        = updateShapes (JObj m) geoJsonData (JStr ''modify'') shapes" if "admitted geoJsonData"
    using handle_admitted[of m geoJsonData tn shapes] assms that by simp
  have 1: "admitted geoJsonData \<and> targetId (JObj m) geoJsonData = Inr target
            \<and> list_all readable shapes
            \<and> i < length shapes \<and> idMatches target (shapes ! i) \<and> (\<forall>j<i. \<not> idMatches target (shapes ! j))
          \<longrightarrow> handleIncomingMessage tn (JObj m) shapes = Inr (shapes[i := withId target geoJsonData])"
    using H updateShapes_modify_present[of "JObj m" geoJsonData target shapes i] by auto
  have 2: "admitted geoJsonData \<and> targetId (JObj m) geoJsonData = Inr target
            \<and> list_all readable shapes \<and> (\<forall>s\<in>set shapes. \<not> idMatches target s)
          \<longrightarrow> handleIncomingMessage tn (JObj m) shapes = Inr (shapes @ [geoJsonData])"
    using H updateShapes_absent[of "JObj m" geoJsonData target shapes "JStr ''modify''"] by auto
  have 3: "\<not> admitted geoJsonData \<longrightarrow> storeAfter tn (JObj m) shapes = shapes"
    using handle_not_admitted[of m geoJsonData tn shapes] assms by simp
  show ?thesis using 1 2 3 by blast
qed

lemma withId_same: "map_of kvs ''id'' = Some target \<Longrightarrow> withId target (JObj kvs) = JObj kvs"
  by (simp add: withId_def update_triv)

text \<open>
  Claim C6, witness: a replacement in the middle of the store, a fallback add, and a
  \<open>modify\<close> that is not admitted.
\<close>

theorem modify_replaces_in_place_witness:
  "handleIncomingMessage hostNaN (envelopeWithId ''modify'' (JNum (Fin 1)) markerA') [lineB, markerA, badPoint]
     = Inr [lineB, markerA', badPoint]
   \<and> handleIncomingMessage hostNaN (envelopeWithId ''modify'' (JNum (Fin 1)) markerA') [lineB, badPoint]
     = Inr [lineB, badPoint, markerA']
   \<and> storeAfter hostNaN (envelope ''modify'' badPolygon) [lineB, squareC] = [lineB, squareC]"
proof -
  let ?m = "[(''type'', JStr ''modify''), (''id'', JNum (Fin 1)), (''data'', markerA')]"
  let ?n = "[(''type'', JStr ''modify''), (''data'', badPolygon)]"
  have a: "propOf ?m ''type'' = JStr ''modify''" "propOf ?n ''type'' = JStr ''modify''"
    by (simp_all add: propOf_def)
  have b: "markerA' = orElse (propOf ?m ''data'') (propOf ?m ''updates'')"
    by (simp add: propOf_def orElse_def markerA'_def)
  have b': "badPolygon = orElse (propOf ?n ''data'') (propOf ?n ''updates'')"
    by (simp add: propOf_def orElse_def badPolygon_def)
  have c: "admitted markerA'"
    by (simp add: admitted_def hasTypedGeometry_def markerA'_def propOf_def)
  have c': "\<not> admitted badPolygon"
    by (simp add: admitted_def hasTypedGeometry_def badPolygon_def propOf_def polygonAccepted_def
        ringAccepted_def pairAccepted_def item_def)
  have e: "targetId (JObj ?m) markerA' = Inr (JNum (Fin 1))" by (simp add: targetId_def bindE_def propOf_def)
  have f: "list_all readable [lineB, markerA, badPoint]" "list_all readable [lineB, badPoint]"
    by (simp_all add: lineB_def markerA_def badPoint_def)
  have w: "withId (JNum (Fin 1)) markerA' = markerA'"
    unfolding markerA'_def by (rule withId_same) simp
  have 1: "handleIncomingMessage hostNaN (JObj ?m) [lineB, markerA, badPoint] = Inr [lineB, markerA', badPoint]"
    using modify_replaces_in_place[OF a(1) b, where target = "JNum (Fin 1)" and i = 1
        and shapes = "[lineB, markerA, badPoint]" and tn = hostNaN] c e f(1) w
    by (simp add: idMatches_def lineB_def markerA_def propOf_def)
  have 2: "handleIncomingMessage hostNaN (JObj ?m) [lineB, badPoint] = Inr [lineB, badPoint, markerA']"
    using modify_replaces_in_place[OF a(1) b, where target = "JNum (Fin 1)" and i = 0
        and shapes = "[lineB, badPoint]" and tn = hostNaN] c e f(2)
    by (simp add: idMatches_def lineB_def badPoint_def propOf_def)
  have 3: "storeAfter hostNaN (JObj ?n) [lineB, squareC] = [lineB, squareC]"
    using modify_replaces_in_place[OF a(2) b', where shapes = "[lineB, squareC]" and tn = hostNaN] c'
    by simp
  show ?thesis using 1 2 3 by (simp add: envelopeWithId_def envelope_def)
qed

text \<open>
  Claim C6 as stated fails: a \<open>modify\<close> for the stored id 3 whose Polygon has the pair
  \<open>[4, "abc"]\<close> replaces nothing; position 1 still holds the old feature.
\<close>

theorem modify_bad_polygon_counterexample:
  "handleIncomingMessage hostNaN (envelope ''modify'' badPolygon) [lineB, squareC] = Inr [lineB, squareC]
   \<and> getProp ''id'' badPolygon = getProp ''id'' squareC
   \<and> [lineB, squareC] ! 1 \<noteq> badPolygon"
  by (simp add: handleIncomingMessage_def envelope_def badPolygon_def squareC_def bindE_def propOf_def
      orElse_def hasTypedGeometry_def polygonCoordinatesValid_def pairInvalid_def Let_def)


section \<open>Properties of the StatsProjector\<close>

lemma destructPair_pairOf: "destructPair (pairOf v) = Inr (JNum (Fin (fst v)), JNum (Fin (snd v)))"
  by (simp add: destructPair_def pairOf_def bindE_def)

lemma toNumber_JNum: "toNumber tn (JNum n) = n"
  by (simp add: toNumber_def)

lemma crossTerm_pairs:
  assumes "i < length vs"
  shows "crossTerm tn (map pairOf vs) i =
     Inr (Fin (fst (vs ! i) * snd (vertexAfter vs i) - fst (vertexAfter vs i) * snd (vs ! i)))"
proof -
  have "0 < length vs" using assms by auto
  then have "(i + 1) mod length vs < length vs" by (rule mod_less_divisor)
  then show ?thesis using assms
    by (simp add: crossTerm_def destructPair_pairOf bindE_def toNumber_JNum subNum_def vertexAfter_def)
qed

lemma distance_fin:
  "distance tn (JNum (Fin x1)) (JNum (Fin y1)) (JNum (Fin x2)) (JNum (Fin y2))
     = Fin (sqrt ((x2 - x1)\<^sup>2 + (y2 - y1)\<^sup>2))"
proof -
  have "\<not> (x2 - x1) * (x2 - x1) + (y2 - y1) * (y2 - y1) < 0"
    by (simp add: not_less)
  then show ?thesis
    by (simp add: distance_def toNumber_JNum subNum_def squareNum_def power2_eq_square)
qed

lemma edgeTerm_pairs:
  assumes "i < length vs"
  shows "edgeTerm tn (map pairOf vs) i =
     Inr (Fin (sqrt ((fst (vertexAfter vs i) - fst (vs ! i))\<^sup>2 + (snd (vertexAfter vs i) - snd (vs ! i))\<^sup>2)))"
proof -
  have "0 < length vs" using assms by auto
  then have "(i + 1) mod length vs < length vs" by (rule mod_less_divisor)
  then show ?thesis using assms
    by (simp add: edgeTerm_def destructPair_pairOf bindE_def distance_fin vertexAfter_def)
qed

lemma reduceSum_fin:
  assumes "\<forall>i\<in>set idx. f i = Inr (Fin (g i))"
  shows "reduceSum f (Fin a) idx = Inr (Fin (a + (\<Sum>i\<leftarrow>idx. g i)))"
  using assms
proof (induction idx arbitrary: a)
  case Nil
  then show ?case by simp
next
  case (Cons i idx)
  then show ?case by (simp add: bindE_def add.assoc)
qed

lemma cross_sum:
  "reduceSum (crossTerm tn (map pairOf vs)) (Fin 0) [0..<length (map pairOf vs)] = Inr (Fin (shoelaceSum vs))"
  using reduceSum_fin[of "[0..<length vs]" "crossTerm tn (map pairOf vs)"
      "\<lambda>i. fst (vs ! i) * snd (vertexAfter vs i) - fst (vertexAfter vs i) * snd (vs ! i)" 0]
  by (simp add: crossTerm_pairs shoelaceSum_def)

lemma edge_sum:
  "reduceSum (edgeTerm tn (map pairOf vs)) (Fin 0) [0..<length (map pairOf vs)] = Inr (Fin (ringLength vs))"
  using reduceSum_fin[of "[0..<length vs]" "edgeTerm tn (map pairOf vs)"
      "\<lambda>i. sqrt ((fst (vertexAfter vs i) - fst (vs ! i))\<^sup>2 + (snd (vertexAfter vs i) - snd (vs ! i))\<^sup>2)" 0]
  by (simp add: edgeTerm_pairs ringLength_def)

text \<open>
  Claim C9. For a Polygon feature whose first ring is a list of pairs of finite numbers,
  \<open>stats.area\<close> is the shoelace sum of the ring, halved and divided by \<open>10\<^sup>6\<close> (signed), the
  panel shows its magnitude, and \<open>stats.perimeter\<close> is the sum of the Euclidean lengths of
  the consecutive edges divided by \<open>10\<^sup>3\<close>. For a Circle feature with a finite radius
  \<open>r\<close> other than zero, \<open>stats.area\<close> is \<open>\<pi> r\<^sup>2 / 10\<^sup>6\<close>, \<open>stats.perimeter\<close> is
  \<open>2 \<pi> r / 10\<^sup>3\<close> and \<open>stats.position\<close> is the raw coordinates.
\<close>

theorem getShapeStats_formulas:
  assumes "propOf s ''geometry'' = JObj g"
    and "propOf s ''properties'' = JObj p"
  shows "(propOf g ''type'' = JStr ''Polygon''
          \<and> propOf g ''coordinates'' = JArr (JArr (map pairOf vs) # holes)
          \<longrightarrow> (\<exists>st. getShapeStats tn (JObj s) = Inr (Some st)
                 \<and> area st = Some (Fin (shoelaceSum vs / 2 / 1000000))
                 \<and> shownArea st = (if shoelaceSum vs = 0 then None
                                    else Some (Fin (\<bar>shoelaceSum vs / 2\<bar> / 1000000)))
                 \<and> perimeter st = Some (Fin (ringLength vs / 1000))))
       \<and> (propOf g ''type'' = JStr ''Circle'' \<and> propOf p ''radius'' = JNum (Fin r) \<and> r \<noteq> 0
          \<longrightarrow> (\<exists>st. getShapeStats tn (JObj s) = Inr (Some st)
                 \<and> area st = Some (Fin (pi * r\<^sup>2 / 1000000))
                 \<and> perimeter st = Some (Fin (2 * pi * r / 1000))
                 \<and> position st = Some (propOf g ''coordinates'')))"
proof (intro conjI impI)
  assume h: "propOf g ''type'' = JStr ''Polygon''
          \<and> propOf g ''coordinates'' = JArr (JArr (map pairOf vs) # holes)"
  show "\<exists>st. getShapeStats tn (JObj s) = Inr (Some st)
                 \<and> area st = Some (Fin (shoelaceSum vs / 2 / 1000000))
                 \<and> shownArea st = (if shoelaceSum vs = 0 then None
                                    else Some (Fin (\<bar>shoelaceSum vs / 2\<bar> / 1000000)))
                 \<and> perimeter st = Some (Fin (ringLength vs / 1000))"
    using assms h
    by (simp add: getShapeStats_def bindE_def Let_def cross_sum edge_sum shownArea_def
        del: length_map)
next
  assume h: "propOf g ''type'' = JStr ''Circle'' \<and> propOf p ''radius'' = JNum (Fin r) \<and> r \<noteq> 0"
  show "\<exists>st. getShapeStats tn (JObj s) = Inr (Some st)
                 \<and> area st = Some (Fin (pi * r\<^sup>2 / 1000000))
                 \<and> perimeter st = Some (Fin (2 * pi * r / 1000))
                 \<and> position st = Some (propOf g ''coordinates'')"
    using assms h
    by (simp add: getShapeStats_def bindE_def Let_def toNumber_JNum power2_eq_square)
qed



lemma upt5: "[0..<5] = [0, 1, 2, 3, 4]"
  by (simp add: upt_rec)

lemma closedSquare_shoelace: "shoelaceSum closedSquare = 32"
  by (simp add: shoelaceSum_def vertexAfter_def closedSquare_def upt5)

lemma sqrt16: "sqrt 16 = 4"
  using real_sqrt_abs[of 4] by simp

lemma closedSquare_ringLength: "ringLength closedSquare = 16"
  by (simp add: ringLength_def vertexAfter_def closedSquare_def upt5 sqrt16)

text \<open>Claim C9, witness: the closed square of side 4 and a circle of radius 3.\<close>

theorem getShapeStats_formulas_witness:
  "(\<exists>st. getShapeStats hostNaN
        (JObj [(''id'', JNum (Fin 1)),
               (''geometry'', JObj [(''type'', JStr ''Polygon''),
                                    (''coordinates'', JArr [JArr (map pairOf closedSquare)])]),
               (''properties'', JObj [(''type'', JStr ''polygon''), (''color'', JStr ''#3388ff'')])])
        = Inr (Some st)
      \<and> area st = Some (Fin (16 / 1000000)) \<and> shownArea st = Some (Fin (16 / 1000000))
      \<and> perimeter st = Some (Fin (16 / 1000)))
   \<and> (\<exists>st. getShapeStats hostNaN
        (JObj [(''id'', JNum (Fin 2)),
               (''geometry'', JObj [(''type'', JStr ''Circle''),
                                    (''coordinates'', JArr [JNum (Fin 1), JNum (Fin 2)])]),
               (''properties'', JObj [(''type'', JStr ''circle''), (''radius'', JNum (Fin 3))])])
        = Inr (Some st)
      \<and> area st = Some (Fin (pi * 9 / 1000000))
      \<and> perimeter st = Some (Fin (2 * pi * 3 / 1000))
      \<and> position st = Some (JArr [JNum (Fin 1), JNum (Fin 2)]))"
  using getShapeStats_formulas[where s = "[(''id'', JNum (Fin 1)),
               (''geometry'', JObj [(''type'', JStr ''Polygon''),
                                    (''coordinates'', JArr [JArr (map pairOf closedSquare)])]),
               (''properties'', JObj [(''type'', JStr ''polygon''), (''color'', JStr ''#3388ff'')])]"
      and g = "[(''type'', JStr ''Polygon''), (''coordinates'', JArr [JArr (map pairOf closedSquare)])]"
      and p = "[(''type'', JStr ''polygon''), (''color'', JStr ''#3388ff'')]"
      and vs = closedSquare and holes = "[]" and tn = hostNaN]
    getShapeStats_formulas[where s = "[(''id'', JNum (Fin 2)),
               (''geometry'', JObj [(''type'', JStr ''Circle''),
                                    (''coordinates'', JArr [JNum (Fin 1), JNum (Fin 2)])]),
               (''properties'', JObj [(''type'', JStr ''circle''), (''radius'', JNum (Fin 3))])]"
      and g = "[(''type'', JStr ''Circle''), (''coordinates'', JArr [JNum (Fin 1), JNum (Fin 2)])]"
      and p = "[(''type'', JStr ''circle''), (''radius'', JNum (Fin 3))]"
      and r = 3 and tn = hostNaN]
  by (simp add: propOf_def closedSquare_shoelace closedSquare_ringLength)

text \<open>
  Claim C10. For a Circle feature whose \<open>properties.radius\<close> is absent or falsy the result
  has the raw position and neither an area nor a perimeter.
\<close>

theorem getShapeStats_circle_without_radius:
  assumes "propOf s ''geometry'' = JObj g"
    and "propOf g ''type'' = JStr ''Circle''"
    and "getProp ''type'' (propOf s ''properties'') = Inr ptype"
    and "getProp ''radius'' (propOf s ''properties'') = Inr radius"
    and "\<not> truthy radius"
  shows "\<exists>st. getShapeStats tn (JObj s) = Inr (Some st)
           \<and> area st = None \<and> perimeter st = None
           \<and> position st = Some (propOf g ''coordinates'')"
proof -
  obtain pcolor where "getProp ''color'' (propOf s ''properties'') = Inr pcolor"
    using assms(4) by (cases "propOf s ''properties''") auto
  then show ?thesis using assms
    by (simp add: getShapeStats_def bindE_def Let_def)
qed

text \<open>Claim C10, witness: a circle of radius \<open>0\<close>.\<close>

theorem getShapeStats_circle_without_radius_witness:
  "(\<exists>st. getShapeStats hostNaN
        (JObj [(''id'', JNum (Fin 2)),
               (''geometry'', JObj [(''type'', JStr ''Circle''),
                                    (''coordinates'', JArr [JNum (Fin 1), JNum (Fin 2)])]),
               (''properties'', JObj [(''type'', JStr ''circle''), (''radius'', JNum (Fin 0))])])
        = Inr (Some st)
      \<and> area st = None \<and> perimeter st = None
      \<and> position st = Some (JArr [JNum (Fin 1), JNum (Fin 2)]))"
  using getShapeStats_circle_without_radius[where s = "[(''id'', JNum (Fin 2)),
               (''geometry'', JObj [(''type'', JStr ''Circle''),
                                    (''coordinates'', JArr [JNum (Fin 1), JNum (Fin 2)])]),
               (''properties'', JObj [(''type'', JStr ''circle''), (''radius'', JNum (Fin 0))])]"
      and g = "[(''type'', JStr ''Circle''), (''coordinates'', JArr [JNum (Fin 1), JNum (Fin 2)])]"
      and ptype = "JStr ''circle''" and radius = "JNum (Fin 0)" and tn = hostNaN]
  by (simp add: propOf_def)


section \<open>Properties of the reconciliation\<close>

lemma ensure_result:
  assumes "ensurePolygonClosedAndClean pf shape = Inr cleaned"
  shows "truthy (propOf cleaned ''properties'') \<and> truthy (propOf cleaned ''geometry'')
       \<and> propOf cleaned ''id'' = jsonCopy (propOf shape ''id'')"
proof -
  define copied where "copied = jsonCopyObj shape"
  define withProps where "withProps = (if \<not> truthy (propOf copied ''properties'')
      then AList.update ''properties'' (JObj []) copied else copied)"
  define nf where "nf = (if \<not> truthy (propOf withProps ''geometry'')
      then AList.update ''geometry'' emptyGeometry withProps else withProps)"
  have P: "truthy (propOf nf ''properties'')"
    by (auto simp: nf_def withProps_def propOf_update)
  have G: "truthy (propOf nf ''geometry'')"
    by (auto simp: nf_def propOf_update emptyGeometry_def)
  have I: "propOf nf ''id'' = jsonCopy (propOf shape ''id'')"
    by (auto simp: nf_def withProps_def copied_def propOf_update propOf_jsonCopyObj)
  have E: "ensurePolygonClosedAndClean pf shape =
     (case propOf nf ''geometry'' of
           JObj g \<Rightarrow>
             (if isArray (propOf g ''coordinates'') then
                (let cleaned = cleanCoordinatesRecursive pf (propOf g ''coordinates'') in
                 if propOf g ''type'' = JStr ''Polygon'' then
                   bindE (closeRings (arrayItems cleaned)) (\<lambda>closed.
                     Inr (AList.update ''geometry''
                            (JObj (AList.update ''coordinates'' (JArr closed) g)) nf))
                 else Inr (AList.update ''geometry''
                             (JObj (AList.update ''coordinates'' cleaned g)) nf))
              else Inr nf)
         | _ \<Rightarrow> Inr nf)"
    unfolding ensurePolygonClosedAndClean_def nf_def withProps_def copied_def Let_def ..
  have up: "\<And>x. truthy (propOf (AList.update ''geometry'' (JObj x) nf) ''properties'')
           \<and> truthy (propOf (AList.update ''geometry'' (JObj x) nf) ''geometry'')
           \<and> propOf (AList.update ''geometry'' (JObj x) nf) ''id'' = jsonCopy (propOf shape ''id'')"
    using P I by (simp add: propOf_update)
  show ?thesis
    using assms P G I up unfolding E
    by (auto split: jsval.splits if_splits sum.splits simp: Let_def bindE_def)
qed


lemma truthy_readable: "truthy v \<Longrightarrow> \<exists>x. getProp k v = Inr x"
  by (cases v) auto

lemma applyStyles_tracked:
  assumes l: "map_of (layerMap en) (ks (propOf shape ''id'')) = Some l"
    and st: "stylable l shape"
    and pr: "truthy (propOf shape ''properties'')"
  shows "\<exists>lf. applyCurrentStyles ks [JObj shape] en =
            Inr (en\<lparr>layerMap := AList.update (ks (propOf shape ''id'')) (l\<lparr>layer_feature := Some lf\<rparr>) (layerMap en),
                    calls := calls en @ [ApplyStyles (ks (propOf shape ''id''))]\<rparr>)
          \<and> (\<forall>f. layer_feature l = Some f \<longrightarrow> propOf lf ''geometry'' = propOf f ''geometry'')"
proof -
  obtain ptype where pt: "getProp ''type'' (propOf shape ''properties'') = Inr ptype"
    using truthy_readable[OF pr] by blast
  have ok: "\<not> ((ptype = JStr ''polyline'' \<or> ptype = JStr ''polygon''
                      \<or> ptype = JStr ''rectangle'' \<or> ptype = JStr ''circle'') \<and> \<not> hasSetStyle l)"
    using st pt by (auto simp: stylable_def)
  show ?thesis
    using l pt ok
    by (auto simp: applyStylesTo_def bindE_def Let_def propOf_update split: option.splits)
qed

lemma applyStyles_untracked:
  assumes "map_of (layerMap en) (ks (propOf shape ''id'')) = None"
  shows "applyCurrentStyles ks [JObj shape] en = Inr en"
  using assms by (simp add: applyStylesTo_def bindE_def)

lemma callsFor_append: "callsFor key (xs @ ys) = callsFor key xs @ callsFor key ys"
  by (simp add: callsFor_def)

lemma callsFor_other:
  "k \<noteq> key \<Longrightarrow> callsFor key [RemoveLayer k] = [] \<and> callsFor key [AddLayer k] = []
     \<and> callsFor key [ApplyStyles k] = []"
  by (simp add: callsFor_def)

lemma callsFor_same:
  "callsFor key [RemoveLayer key] = [RemoveLayer key] \<and> callsFor key [AddLayer key] = [AddLayer key]
     \<and> callsFor key [ApplyStyles key] = [ApplyStyles key]"
  by (simp add: callsFor_def)

lemma map_of_update_other: "k \<noteq> key \<Longrightarrow> map_of (AList.update k v al) key = map_of al key"
  by (simp add: update_conv')

lemma map_of_delete_other: "k \<noteq> key \<Longrightarrow> map_of (AList.delete k al) key = map_of al key"
  by (simp add: delete_conv')

lemma applyStyles_frame:
  assumes "applyCurrentStyles ks [JObj shape] en = Inr en'"
    and "ks (propOf shape ''id'') \<noteq> key"
  shows "map_of (layerMap en') key = map_of (layerMap en) key
       \<and> callsFor key (calls en') = callsFor key (calls en)"
  using assms
  by (auto simp: applyStylesTo_def bindE_def Let_def callsFor_append callsFor_other
      map_of_update_other split: option.splits sum.splits if_splits)


lemma applyStyles_success_stylable:
  assumes "applyCurrentStyles ks [JObj shape] en = Inr en'"
    and "map_of (layerMap en) (ks (propOf shape ''id'')) = Some l"
    and "truthy (propOf shape ''properties'')"
  shows "stylable l shape"
proof -
  obtain ptype where pt: "getProp ''type'' (propOf shape ''properties'') = Inr ptype"
    using truthy_readable[OF assms(3)] by blast
  show ?thesis using assms(1,2) pt
    by (auto simp: applyStylesTo_def bindE_def Let_def stylable_def split: if_splits)
qed

lemma stylable_feature_update: "stylable (l\<lparr>layer_feature := x\<rparr>) shape = stylable l shape"
  by (simp add: stylable_def)

lemma geometryChanged_objects:
  assumes "propOf kg ''type'' = JStr t" "propOf cg ''type'' = JStr t"
  shows "geometryChanged (JObj kg) (JObj cg)
           = Inr (jsonTextDiffers (propOf kg ''coordinates'') (propOf cg ''coordinates''))"
  using assms by (simp add: geometryChanged_def bindE_def)

lemma syncFeature_changed:
  assumes c: "ensurePolygonClosedAndClean pf shape = Inr cleaned"
    and k: "ks (propOf cleaned ''id'') = ks (propOf shape ''id'')"
    and t: "map_of (layerMap en) (ks (propOf shape ''id'')) = Some old"
    and f: "layer_feature old = Some known" "truthy (propOf known ''geometry'')"
    and ch: "geometryChanged (propOf known ''geometry'') (propOf cleaned ''geometry'') = Inr True"
    and mk: "createLayer r cleaned = Inr (Some made)"
    and st: "stylable made cleaned"
  shows "\<exists>en' lf. syncFeature r ks pf shape en = Inr en'
           \<and> calls en' = calls en @ [RemoveLayer (ks (propOf shape ''id'')),
                                      AddLayer (ks (propOf shape ''id'')),
                                      ApplyStyles (ks (propOf shape ''id''))]
           \<and> map_of (layerMap en') (ks (propOf shape ''id'')) = Some (made\<lparr>layer_feature := Some lf\<rparr>)
           \<and> propOf lf ''geometry'' = propOf cleaned ''geometry''"
proof -
  let ?key = "ks (propOf shape ''id'')"
  let ?l = "made\<lparr>layer_feature := Some cleaned\<rparr>"
  define en2 where "en2 = en\<lparr>layerMap := AList.update ?key ?l (AList.delete ?key (layerMap en)),
                              calls := calls en @ [RemoveLayer ?key] @ [AddLayer ?key]\<rparr>"
  have rec: "shouldRecreateLayer (Some old) cleaned = Inr True"
    using f ch by (simp add: shouldRecreateLayer_def)
  have S: "syncFeature r ks pf shape en = applyCurrentStyles ks [JObj cleaned] en2"
    using c k t rec mk by (simp add: syncFeature_def bindE_def Let_def en2_def)
  have tr: "map_of (layerMap en2) (ks (propOf cleaned ''id'')) = Some ?l"
    by (simp add: en2_def k update_conv')
  have pr: "truthy (propOf cleaned ''properties'')" using ensure_result[OF c] by simp
  have st': "stylable ?l cleaned" using st by (simp add: stylable_feature_update)
  from applyStyles_tracked[of en2 ks cleaned ?l, OF tr st' pr] obtain lf where
    A: "applyCurrentStyles ks [JObj cleaned] en2 =
            Inr (en2\<lparr>layerMap := AList.update (ks (propOf cleaned ''id'')) (?l\<lparr>layer_feature := Some lf\<rparr>) (layerMap en2),
                    calls := calls en2 @ [ApplyStyles (ks (propOf cleaned ''id''))]\<rparr>)"
    and B: "propOf lf ''geometry'' = propOf cleaned ''geometry''" by auto
  show ?thesis
    unfolding S A using B by (auto simp: en2_def k update_conv')
qed

lemma syncFeature_unchanged:
  assumes c: "ensurePolygonClosedAndClean pf shape = Inr cleaned"
    and k: "ks (propOf cleaned ''id'') = ks (propOf shape ''id'')"
    and t: "map_of (layerMap en) (ks (propOf shape ''id'')) = Some old"
    and f: "layer_feature old = Some known" "truthy (propOf known ''geometry'')"
    and ch: "geometryChanged (propOf known ''geometry'') (propOf cleaned ''geometry'') = Inr False"
    and st: "stylable old cleaned"
  shows "\<exists>en' lf. syncFeature r ks pf shape en = Inr en'
           \<and> calls en' = calls en @ [ApplyStyles (ks (propOf shape ''id''))]
           \<and> map_of (layerMap en') (ks (propOf shape ''id'')) = Some (old\<lparr>layer_feature := Some lf\<rparr>)
           \<and> propOf lf ''geometry'' = propOf known ''geometry''"
proof -
  have rec: "shouldRecreateLayer (Some old) cleaned = Inr False"
    using f ch by (simp add: shouldRecreateLayer_def)
  have S: "syncFeature r ks pf shape en = applyCurrentStyles ks [JObj cleaned] en"
    using c t rec by (simp add: syncFeature_def bindE_def Let_def)
  have tr: "map_of (layerMap en) (ks (propOf cleaned ''id'')) = Some old" using t k by simp
  have pr: "truthy (propOf cleaned ''properties'')" using ensure_result[OF c] by simp
  from applyStyles_tracked[of en ks cleaned old, OF tr st pr] obtain lf where
    A: "applyCurrentStyles ks [JObj cleaned] en =
            Inr (en\<lparr>layerMap := AList.update (ks (propOf cleaned ''id'')) (old\<lparr>layer_feature := Some lf\<rparr>) (layerMap en),
                    calls := calls en @ [ApplyStyles (ks (propOf cleaned ''id''))]\<rparr>)"
    and B: "propOf lf ''geometry'' = propOf known ''geometry''" using f(1) by auto
  show ?thesis
    unfolding S A using B by (auto simp: k update_conv')
qed

lemma syncFeature_frame:
  assumes run: "syncFeature r ks pf shape en = Inr en'"
    and k1: "ks (propOf shape ''id'') \<noteq> key"
    and k2: "ks (jsonCopy (propOf shape ''id'')) \<noteq> key"
  shows "map_of (layerMap en') key = map_of (layerMap en) key
       \<and> callsFor key (calls en') = callsFor key (calls en)"
proof -
  obtain cleaned where c: "ensurePolygonClosedAndClean pf shape = Inr cleaned"
    using run by (cases "ensurePolygonClosedAndClean pf shape") (auto simp: syncFeature_def bindE_def Let_def)
  have ck: "ks (propOf cleaned ''id'') \<noteq> key" using ensure_result[OF c] k2 by simp
  let ?key = "ks (propOf shape ''id'')"
  obtain recreate where rc: "shouldRecreateLayer (map_of (layerMap en) ?key) cleaned = Inr recreate"
    using run c by (cases "shouldRecreateLayer (map_of (layerMap en) ?key) cleaned")
      (auto simp: syncFeature_def bindE_def Let_def)
  show ?thesis
  proof (cases recreate)
    case False
    then have "applyCurrentStyles ks [JObj cleaned] en = Inr en'"
      using run c rc by (simp add: syncFeature_def bindE_def Let_def)
    then show ?thesis using applyStyles_frame ck by blast
  next
    case True
    define en1 where "en1 = (case map_of (layerMap en) ?key of
                        None \<Rightarrow> en
                      | Some old \<Rightarrow> en\<lparr>layerMap := AList.delete ?key (layerMap en),
                                       calls := calls en @ [RemoveLayer ?key]\<rparr>)"
    have e1: "map_of (layerMap en1) key = map_of (layerMap en) key
       \<and> callsFor key (calls en1) = callsFor key (calls en)"
      using k1 by (auto simp: en1_def callsFor_append callsFor_other map_of_delete_other split: option.splits)
    obtain made where mk: "createLayer r cleaned = Inr made"
      using run c rc True by (cases "createLayer r cleaned")
        (auto simp: syncFeature_def bindE_def Let_def)
    show ?thesis
    proof (cases made)
      case None
      then have "en' = en1" using run c rc True mk
        by (simp add: syncFeature_def bindE_def Let_def en1_def)
      then show ?thesis using e1 by simp
    next
      case (Some l)
      define en2 where "en2 = en1\<lparr>layerMap := AList.update (ks (propOf cleaned ''id''))
                                  (l\<lparr>layer_feature := Some cleaned\<rparr>) (layerMap en1),
                                 calls := calls en1 @ [AddLayer (ks (propOf cleaned ''id''))]\<rparr>"
      have e2: "map_of (layerMap en2) key = map_of (layerMap en) key
         \<and> callsFor key (calls en2) = callsFor key (calls en)"
        using e1 ck by (simp add: en2_def callsFor_append callsFor_other map_of_update_other)
      have "applyCurrentStyles ks [JObj cleaned] en2 = Inr en'"
        using run c rc True mk Some
        by (simp add: syncFeature_def bindE_def Let_def en1_def en2_def)
      then show ?thesis using applyStyles_frame[of ks cleaned en2 en' key] ck e2 by simp
    qed
  qed
qed


lemma removeStale_frame:
  "key \<in> set ids \<Longrightarrow>
   map_of (layerMap (removeStale ids keys en)) key = map_of (layerMap en) key
   \<and> callsFor key (calls (removeStale ids keys en)) = callsFor key (calls en)"
proof (induction keys arbitrary: en)
  case Nil
  then show ?case by simp
next
  case (Cons k keys)
  show ?case
  proof (cases "k \<in> set ids")
    case True
    then show ?thesis using Cons by simp
  next
    case False
    then have "k \<noteq> key" using Cons.prems by auto
    then show ?thesis using False Cons.IH[OF Cons.prems]
      by (simp add: callsFor_append callsFor_other map_of_delete_other)
  qed
qed

lemma idStrings_keys:
  "idStrings ks shapes = Inr ids \<Longrightarrow> ids = map (\<lambda>s. ks (propOf s ''id'')) shapes"
proof (induction shapes arbitrary: ids)
  case Nil
  then show ?case by simp
next
  case (Cons s shapes)
  then show ?case
    by (auto simp: bindE_def idString_def split: sum.splits if_splits)
qed

lemma syncFeatures_append:
  "syncFeatures r ks pf (xs @ ys) en = bindE (syncFeatures r ks pf xs en) (syncFeatures r ks pf ys)"
  by (induction xs arbitrary: en) (auto simp: bindE_def split: sum.splits)

lemma syncFeatures_frame:
  assumes "syncFeatures r ks pf shapes en = Inr en'"
    and "\<forall>s\<in>set shapes. ks (propOf s ''id'') \<noteq> key \<and> ks (jsonCopy (propOf s ''id'')) \<noteq> key"
  shows "map_of (layerMap en') key = map_of (layerMap en) key
       \<and> callsFor key (calls en') = callsFor key (calls en)"
  using assms
proof (induction shapes arbitrary: en)
  case Nil
  then show ?case by simp
next
  case (Cons s shapes)
  from Cons.prems(1) obtain en1 where 1: "syncFeature r ks pf s en = Inr en1"
      and 2: "syncFeatures r ks pf shapes en1 = Inr en'"
    by (auto simp: bindE_def split: sum.splits)
  have "map_of (layerMap en1) key = map_of (layerMap en) key
       \<and> callsFor key (calls en1) = callsFor key (calls en)"
    using syncFeature_frame[OF 1] Cons.prems(2) by simp
  moreover have "map_of (layerMap en') key = map_of (layerMap en1) key
       \<and> callsFor key (calls en') = callsFor key (calls en1)"
    using Cons.IH[OF 2] Cons.prems(2) by simp
  ultimately show ?case by simp
qed

lemma removals_callsFor: "removals key cs = removals key (callsFor key cs)"
  by (simp add: removals_def callsFor_def) (metis (mono_tags, lifting) filter_cong)

lemma creations_callsFor: "creations key cs = creations key (callsFor key cs)"
  by (simp add: creations_def callsFor_def) (metis (mono_tags, lifting) filter_cong)

lemma restylings_callsFor: "restylings key cs = restylings key (callsFor key cs)"
  by (simp add: restylings_def callsFor_def) (metis (mono_tags, lifting) filter_cong)

lemma counts_of_callsFor:
  assumes "callsFor key cs' = callsFor key cs @ extra"
  shows "removals key cs' = removals key cs + removals key extra
       \<and> creations key cs' = creations key cs + creations key extra
       \<and> restylings key cs' = restylings key cs + restylings key extra"
proof -
  have "removals key cs' = removals key (callsFor key cs @ extra)"
    using removals_callsFor[of key cs'] assms by simp
  moreover have "creations key cs' = creations key (callsFor key cs @ extra)"
    using creations_callsFor[of key cs'] assms by simp
  moreover have "restylings key cs' = restylings key (callsFor key cs @ extra)"
    using restylings_callsFor[of key cs'] assms by simp
  ultimately show ?thesis
    using removals_callsFor[of key cs] creations_callsFor[of key cs] restylings_callsFor[of key cs]
    by (simp add: removals_def creations_def restylings_def)
qed

lemma syncShapes_at:
  assumes run: "syncShapes r ks pf (before @ [shape] @ after) en = Inr en'"
    and others: "\<forall>s\<in>set before \<union> set after.
                   ks (propOf s ''id'') \<noteq> key \<and> ks (jsonCopy (propOf s ''id'')) \<noteq> key"
    and key: "ks (propOf shape ''id'') = key"
  shows "\<exists>ena enb. map_of (layerMap ena) key = map_of (layerMap en) key
           \<and> callsFor key (calls ena) = callsFor key (calls en)
           \<and> syncFeature r ks pf shape ena = Inr enb
           \<and> callsFor key (calls en') = callsFor key (calls enb)
           \<and> map_of (layerMap en') key = map_of (layerMap enb) key"
proof -
  obtain ids where ids: "idStrings ks (before @ [shape] @ after) = Inr ids"
    using run by (cases "idStrings ks (before @ [shape] @ after)") (auto simp: syncShapes_def bindE_def)
  have kin: "key \<in> set ids" using idStrings_keys[OF ids] key by auto
  define en0 where "en0 = removeStale ids (map fst (AList.clearjunk (layerMap en))) en"
  have f0: "map_of (layerMap en0) key = map_of (layerMap en) key
       \<and> callsFor key (calls en0) = callsFor key (calls en)"
    unfolding en0_def using removeStale_frame[OF kin] by blast
  have R: "syncFeatures r ks pf (before @ [shape] @ after) en0 = Inr en'"
    using run ids by (simp add: syncShapes_def bindE_def en0_def)
  then obtain ena where a: "syncFeatures r ks pf before en0 = Inr ena"
      and a': "syncFeatures r ks pf ([shape] @ after) ena = Inr en'"
    unfolding syncFeatures_append[of r ks pf before] by (auto simp: bindE_def split: sum.splits)
  from a' obtain enb where b: "syncFeature r ks pf shape ena = Inr enb"
      and b': "syncFeatures r ks pf after enb = Inr en'"
    by (auto simp: bindE_def split: sum.splits)
  have fa: "map_of (layerMap ena) key = map_of (layerMap en0) key
       \<and> callsFor key (calls ena) = callsFor key (calls en0)"
    using syncFeatures_frame[OF a] others by simp
  have fb: "callsFor key (calls en') = callsFor key (calls enb)
      \<and> map_of (layerMap en') key = map_of (layerMap enb) key"
    using syncFeatures_frame[OF b'] others by simp
  show ?thesis using f0 fa b fb by auto
qed


lemma syncFeature_changed_run:
  assumes run: "syncFeature r ks pf shape en = Inr enb"
    and c: "ensurePolygonClosedAndClean pf shape = Inr cleaned"
    and k: "ks (propOf cleaned ''id'') = ks (propOf shape ''id'')"
    and t: "map_of (layerMap en) (ks (propOf shape ''id'')) = Some old"
    and f: "layer_feature old = Some known" "truthy (propOf known ''geometry'')"
    and ch: "geometryChanged (propOf known ''geometry'') (propOf cleaned ''geometry'') = Inr True"
    and mk: "createLayer r cleaned \<noteq> Inr None"
  shows "\<exists>made lf. createLayer r cleaned = Inr (Some made)
           \<and> calls enb = calls en @ [RemoveLayer (ks (propOf shape ''id'')),
                                      AddLayer (ks (propOf shape ''id'')),
                                      ApplyStyles (ks (propOf shape ''id''))]
           \<and> map_of (layerMap enb) (ks (propOf shape ''id'')) = Some (made\<lparr>layer_feature := Some lf\<rparr>)
           \<and> propOf lf ''geometry'' = propOf cleaned ''geometry''"
proof -
  let ?key = "ks (propOf shape ''id'')"
  have rec: "shouldRecreateLayer (Some old) cleaned = Inr True"
    using f ch by (simp add: shouldRecreateLayer_def)
  obtain made where m: "createLayer r cleaned = Inr (Some made)"
    using run c t rec mk
    by (cases "createLayer r cleaned") (auto simp: syncFeature_def bindE_def Let_def)
  let ?l = "made\<lparr>layer_feature := Some cleaned\<rparr>"
  define en2 where "en2 = en\<lparr>layerMap := AList.update ?key ?l (AList.delete ?key (layerMap en)),
                              calls := calls en @ [RemoveLayer ?key] @ [AddLayer ?key]\<rparr>"
  have S: "syncFeature r ks pf shape en = applyCurrentStyles ks [JObj cleaned] en2"
    using c k t rec m by (simp add: syncFeature_def bindE_def Let_def en2_def)
  have tr: "map_of (layerMap en2) (ks (propOf cleaned ''id'')) = Some ?l"
    by (simp add: en2_def k update_conv')
  have pr: "truthy (propOf cleaned ''properties'')" using ensure_result[OF c] by simp
  have "stylable ?l cleaned"
    using applyStyles_success_stylable[of ks cleaned en2 enb ?l] run S tr pr by simp
  then have st: "stylable made cleaned" by (simp add: stylable_feature_update)
  from syncFeature_changed[OF c k t f ch m st] run m show ?thesis by auto
qed

lemma syncFeature_unchanged_run:
  assumes run: "syncFeature r ks pf shape en = Inr enb"
    and c: "ensurePolygonClosedAndClean pf shape = Inr cleaned"
    and k: "ks (propOf cleaned ''id'') = ks (propOf shape ''id'')"
    and t: "map_of (layerMap en) (ks (propOf shape ''id'')) = Some old"
    and f: "layer_feature old = Some known" "truthy (propOf known ''geometry'')"
    and ch: "geometryChanged (propOf known ''geometry'') (propOf cleaned ''geometry'') = Inr False"
  shows "\<exists>lf. calls enb = calls en @ [ApplyStyles (ks (propOf shape ''id''))]
           \<and> map_of (layerMap enb) (ks (propOf shape ''id'')) = Some (old\<lparr>layer_feature := Some lf\<rparr>)
           \<and> propOf lf ''geometry'' = propOf known ''geometry''"
proof -
  have rec: "shouldRecreateLayer (Some old) cleaned = Inr False"
    using f ch by (simp add: shouldRecreateLayer_def)
  have S: "syncFeature r ks pf shape en = applyCurrentStyles ks [JObj cleaned] en"
    using c t rec by (simp add: syncFeature_def bindE_def Let_def)
  have tr: "map_of (layerMap en) (ks (propOf cleaned ''id'')) = Some old" using t k by simp
  have pr: "truthy (propOf cleaned ''properties'')" using ensure_result[OF c] by simp
  have st: "stylable old cleaned"
    using applyStyles_success_stylable[of ks cleaned en enb old] run S tr pr by simp
  from syncFeature_unchanged[OF c k t f ch st, where r = r] run show ?thesis by auto
qed

lemma counts_three:
  "removals key [RemoveLayer key, AddLayer key, ApplyStyles key] = 1
   \<and> creations key [RemoveLayer key, AddLayer key, ApplyStyles key] = 1
   \<and> restylings key [RemoveLayer key, AddLayer key, ApplyStyles key] = 1
   \<and> removals key [ApplyStyles key] = 0 \<and> creations key [ApplyStyles key] = 0
   \<and> restylings key [ApplyStyles key] = 1"
  by (simp add: removals_def creations_def restylings_def)

text \<open>
  Claim C7. Let the effect run to its end over shapes among which one shape alone has a
  given key, let a layer be tracked under that key with a last-known geometry, and let the
  cleaned shape have a geometry of the same type. If the JSON text of the cleaned
  coordinates differs from that of the last-known ones (and the toolkit makes a layer),
  the calls for that key are one removal of the old layer, one creation, one application
  of styles, in this order, and the tracked layer is the new one with the cleaned geometry.
  If the text is the same, there is no removal and no creation, and exactly one application
  of styles; the tracked layer is the old one, its last-known geometry untouched.
\<close>

theorem syncShapes_recreate_or_restyle:
  assumes run: "syncShapes r ks pf (before @ [shape] @ after) en = Inr en'"
    and others: "\<forall>s\<in>set before \<union> set after.
                   ks (propOf s ''id'') \<noteq> key \<and> ks (jsonCopy (propOf s ''id'')) \<noteq> key"
    and key: "ks (propOf shape ''id'') = key" "ks (jsonCopy (propOf shape ''id'')) = key"
    and tracked: "map_of (layerMap en) key = Some old" "layer_feature old = Some known"
      "propOf known ''geometry'' = JObj kg"
    and cleaned: "ensurePolygonClosedAndClean pf shape = Inr cleaned"
      "propOf cleaned ''geometry'' = JObj cg"
    and sametype: "propOf kg ''type'' = JStr t" "propOf cg ''type'' = JStr t"
  shows "(jsonTextDiffers (propOf kg ''coordinates'') (propOf cg ''coordinates'')
            \<and> createLayer r cleaned \<noteq> Inr None \<longrightarrow>
          callsFor key (calls en') = callsFor key (calls en) @ [RemoveLayer key, AddLayer key, ApplyStyles key]
          \<and> removals key (calls en') = removals key (calls en) + 1
          \<and> creations key (calls en') = creations key (calls en) + 1
          \<and> restylings key (calls en') = restylings key (calls en) + 1
          \<and> (\<exists>made lf. createLayer r cleaned = Inr (Some made)
                \<and> map_of (layerMap en') key = Some (made\<lparr>layer_feature := Some lf\<rparr>)
                \<and> propOf lf ''geometry'' = JObj cg))
       \<and> (\<not> jsonTextDiffers (propOf kg ''coordinates'') (propOf cg ''coordinates'') \<longrightarrow>
          callsFor key (calls en') = callsFor key (calls en) @ [ApplyStyles key]
          \<and> removals key (calls en') = removals key (calls en)
          \<and> creations key (calls en') = creations key (calls en)
          \<and> restylings key (calls en') = restylings key (calls en) + 1
          \<and> (\<exists>lf. map_of (layerMap en') key = Some (old\<lparr>layer_feature := Some lf\<rparr>)
                \<and> propOf lf ''geometry'' = JObj kg))"
proof -
  from syncShapes_at[OF run others key(1)] obtain ena enb where
    a: "map_of (layerMap ena) key = map_of (layerMap en) key"
      "callsFor key (calls ena) = callsFor key (calls en)"
    and b: "syncFeature r ks pf shape ena = Inr enb"
    and e: "callsFor key (calls en') = callsFor key (calls enb)"
      "map_of (layerMap en') key = map_of (layerMap enb) key" by blast
  have k: "ks (propOf cleaned ''id'') = ks (propOf shape ''id'')"
    using ensure_result[OF cleaned(1)] key by simp
  have t: "map_of (layerMap ena) (ks (propOf shape ''id'')) = Some old"
    using a(1) tracked(1) key(1) by simp
  have g: "truthy (propOf known ''geometry'')" using tracked(3) by simp
  have ch: "geometryChanged (propOf known ''geometry'') (propOf cleaned ''geometry'')
      = Inr (jsonTextDiffers (propOf kg ''coordinates'') (propOf cg ''coordinates''))"
    using geometryChanged_objects[OF sametype] tracked(3) cleaned(2) by simp
  show ?thesis
  proof (intro conjI impI)
    assume h: "jsonTextDiffers (propOf kg ''coordinates'') (propOf cg ''coordinates'')
            \<and> createLayer r cleaned \<noteq> Inr None"
    then have ch': "geometryChanged (propOf known ''geometry'') (propOf cleaned ''geometry'') = Inr True"
      using ch by simp
    from syncFeature_changed_run[OF b cleaned(1) k t tracked(2) g ch'] h
    obtain made lf where m: "createLayer r cleaned = Inr (Some made)"
      and c: "calls enb = calls ena @ [RemoveLayer key, AddLayer key, ApplyStyles key]"
      and l: "map_of (layerMap enb) key = Some (made\<lparr>layer_feature := Some lf\<rparr>)"
        "propOf lf ''geometry'' = propOf cleaned ''geometry''"
      using key(1) by auto
    have cf: "callsFor key (calls en') = callsFor key (calls en) @ [RemoveLayer key, AddLayer key, ApplyStyles key]"
      using e(1) c a(2) by (simp add: callsFor_append) (simp add: callsFor_def)
    show "callsFor key (calls en') = callsFor key (calls en) @ [RemoveLayer key, AddLayer key, ApplyStyles key]"
      by (rule cf)
    show "removals key (calls en') = removals key (calls en) + 1"
      using counts_of_callsFor[OF cf] counts_three[of key] by simp
    show "creations key (calls en') = creations key (calls en) + 1"
      using counts_of_callsFor[OF cf] counts_three[of key] by simp
    show "restylings key (calls en') = restylings key (calls en) + 1"
      using counts_of_callsFor[OF cf] counts_three[of key] by simp
    show "\<exists>made lf. createLayer r cleaned = Inr (Some made)
                \<and> map_of (layerMap en') key = Some (made\<lparr>layer_feature := Some lf\<rparr>)
                \<and> propOf lf ''geometry'' = JObj cg"
      using m l e(2) cleaned(2) by auto
  next
    assume h: "\<not> jsonTextDiffers (propOf kg ''coordinates'') (propOf cg ''coordinates'')"
    then have ch': "geometryChanged (propOf known ''geometry'') (propOf cleaned ''geometry'') = Inr False"
      using ch by simp
    from syncFeature_unchanged_run[OF b cleaned(1) k t tracked(2) g ch']
    obtain lf where c: "calls enb = calls ena @ [ApplyStyles key]"
      and l: "map_of (layerMap enb) key = Some (old\<lparr>layer_feature := Some lf\<rparr>)"
        "propOf lf ''geometry'' = propOf known ''geometry''"
      using key(1) by auto
    have cf: "callsFor key (calls en') = callsFor key (calls en) @ [ApplyStyles key]"
      using e(1) c a(2) by (simp add: callsFor_append) (simp add: callsFor_def)
    show "callsFor key (calls en') = callsFor key (calls en) @ [ApplyStyles key]"
      by (rule cf)
    show "removals key (calls en') = removals key (calls en)"
      using counts_of_callsFor[OF cf] counts_three[of key] by simp
    show "creations key (calls en') = creations key (calls en)"
      using counts_of_callsFor[OF cf] counts_three[of key] by simp
    show "restylings key (calls en') = restylings key (calls en) + 1"
      using counts_of_callsFor[OF cf] counts_three[of key] by simp
    show "\<exists>lf. map_of (layerMap en') key = Some (old\<lparr>layer_feature := Some lf\<rparr>)
                \<and> propOf lf ''geometry'' = JObj kg"
      using l e(2) tracked(3) by auto
  qed
qed

lemmas sample_defs = road_def roadLine_def roadLineMoved_def hut_def trackedEngine_def
  pathLayer_def markerLayer_def sampleRenderer_def

lemmas run_defs = syncShapes_def syncFeature_def bindE_def Let_def idString_def propOf_def
  ensurePolygonClosedAndClean_def jsonCopyObj_def jsonProps_def shouldRecreateLayer_def
  geometryChanged_def jsonTextDiffers_def createLayer_def applyStylesTo_def spreadMerge_def
  parseFloat_def

text \<open>
  Claim C7, witness: with a road and a hut tracked, a road whose line has moved is removed,
  made anew and styled once; a road that only changed colour is styled once and nothing
  else.
\<close>

theorem syncShapes_recreate_or_restyle_witness:
  "(\<exists>en'. syncShapes sampleRenderer stringKey hostNaN [hut, road roadLineMoved ''#3388ff''] trackedEngine = Inr en'
       \<and> callsFor ''road'' (calls en') = [RemoveLayer ''road'', AddLayer ''road'', ApplyStyles ''road'']
       \<and> removals ''road'' (calls en') = 1 \<and> creations ''road'' (calls en') = 1
       \<and> restylings ''road'' (calls en') = 1)
   \<and> (\<exists>en'. syncShapes sampleRenderer stringKey hostNaN [hut, road roadLine ''#ff0000''] trackedEngine = Inr en'
       \<and> callsFor ''road'' (calls en') = [ApplyStyles ''road'']
       \<and> removals ''road'' (calls en') = 0 \<and> creations ''road'' (calls en') = 0
       \<and> restylings ''road'' (calls en') = 1)"
proof -
  let ?old = "pathLayer\<lparr>layer_feature := Some (road roadLine ''#3388ff'')\<rparr>"
  have tracked: "map_of (layerMap trackedEngine) ''road'' = Some ?old"
    "layer_feature ?old = Some (road roadLine ''#3388ff'')"
    "propOf (road roadLine ''#3388ff'') ''geometry''
       = JObj [(''type'', JStr ''LineString''), (''coordinates'', roadLine)]"
    by (simp_all add: trackedEngine_def road_def propOf_def)
  have others: "\<forall>s\<in>set [hut] \<union> set [].
      stringKey (propOf s ''id'') \<noteq> ''road'' \<and> stringKey (jsonCopy (propOf s ''id'')) \<noteq> ''road''"
    by (simp add: hut_def propOf_def)
  have key: "stringKey (propOf (road c col) ''id'') = ''road''"
    "stringKey (jsonCopy (propOf (road c col) ''id'')) = ''road''" for c col
    by (simp_all add: road_def propOf_def)
  have geo: "propOf (road c col) ''geometry'' = JObj [(''type'', JStr ''LineString''), (''coordinates'', c)]"
    for c col by (simp add: road_def propOf_def)
  have ty: "propOf [(''type'', JStr ''LineString''), (''coordinates'', c)] ''type'' = JStr ''LineString''"
    for c by (simp add: propOf_def)
  have co: "propOf [(''type'', JStr ''LineString''), (''coordinates'', c)] ''coordinates'' = c"
    for c by (simp add: propOf_def)
  have clean1: "ensurePolygonClosedAndClean hostNaN (road roadLineMoved ''#3388ff'') = Inr (road roadLineMoved ''#3388ff'')"
    by (simp add: run_defs sample_defs)
  have clean2: "ensurePolygonClosedAndClean hostNaN (road roadLine ''#ff0000'') = Inr (road roadLine ''#ff0000'')"
    by (simp add: run_defs sample_defs)
  obtain en1 where run1: "syncShapes sampleRenderer stringKey hostNaN ([hut] @ [road roadLineMoved ''#3388ff''] @ []) trackedEngine = Inr en1"
    by (simp add: run_defs sample_defs)
  obtain en2 where run2: "syncShapes sampleRenderer stringKey hostNaN ([hut] @ [road roadLine ''#ff0000''] @ []) trackedEngine = Inr en2"
    by (simp add: run_defs sample_defs)
  have differs: "jsonTextDiffers roadLine roadLineMoved" "\<not> jsonTextDiffers roadLine roadLine"
    by (simp_all add: jsonTextDiffers_def roadLine_def roadLineMoved_def)
  have made: "createLayer sampleRenderer (road roadLineMoved ''#3388ff'') \<noteq> Inr None"
    by (simp add: createLayer_def sample_defs propOf_def bindE_def)
  have c0: "calls trackedEngine = []" by (simp add: trackedEngine_def)
  have 1: "callsFor ''road'' (calls en1) = [RemoveLayer ''road'', AddLayer ''road'', ApplyStyles ''road'']
       \<and> removals ''road'' (calls en1) = 1 \<and> creations ''road'' (calls en1) = 1
       \<and> restylings ''road'' (calls en1) = 1"
    using syncShapes_recreate_or_restyle[OF run1 others key tracked clean1 geo ty ty] differs(1) made
    by (simp add: co c0 callsFor_def removals_def creations_def restylings_def)
  have 2: "callsFor ''road'' (calls en2) = [ApplyStyles ''road'']
       \<and> removals ''road'' (calls en2) = 0 \<and> creations ''road'' (calls en2) = 0
       \<and> restylings ''road'' (calls en2) = 1"
    using syncShapes_recreate_or_restyle[OF run2 others key tracked clean2 geo ty ty] differs(2)
    by (simp add: co c0 callsFor_def removals_def creations_def restylings_def)
  show ?thesis using 1 2 run1 run2 by auto
qed


end
